theory Spec2Isabelle
  imports Main "HOL-Library.Multiset" "HOL-Library.Sublist" "HOL-Library.List_Lexorder"
    "HOL-Library.Char_ord"
begin

section \<open>Piece discovery and metadata validation (file pieces utilities)\<close>

text \<open>
  The module loads every piece found under the distribution folders, validates its
  metadata and lists the pieces sorted by display name.  Everything the module does
  through Node and through the \<^verbatim>\<open>semver\<close> package is an explicit parameter of the
  model: the file system and the module loader (\<open>NodeEnv\<close>), the semver functions
  (\<open>Semver\<close>) and the two string primitives of the sort key (\<open>StringOps\<close>).
  A thrown exception is a value \<open>Inl e\<close>; logging has no effect on any result and is
  left out.
\<close>

subsection \<open>Data\<close>

datatype error = Error string | TypeError string | ENOENT string | SyntaxError string

text \<open>
  \<^verbatim>\<open>PieceCategory\<close> is an enumeration declared in the shared package; the only member
  the module names is \<^verbatim>\<open>PREMIUM\<close>, every other member is carried by its text.
\<close>

datatype PieceCategory = PREMIUM | OTHER_CATEGORY string

text \<open>
  \<^verbatim>\<open>Omit<PieceMetadata, 'name' | 'version'>\<close>, the result of \<^verbatim>\<open>piece.metadata()\<close>,
  and \<^verbatim>\<open>PieceMetadata\<close> itself, restricted to the fields the module reads or writes.
  An optional field is an \<open>option\<close>.
\<close>

record PieceMetadataBase =
  displayName :: string
  directoryPath :: "string option"
  categories :: "PieceCategory list option"
  minimumSupportedRelease :: "string option"
  maximumSupportedRelease :: "string option"

record PieceMetadata = PieceMetadataBase +
  name :: string
  version :: string

text \<open>
  The module's local type \<^verbatim>\<open>Piece\<close> and the manifest type \<^verbatim>\<open>PackageJson\<close>.  Their
  fields carry a prefix, the plain names being those of the metadata.  The method
  \<^verbatim>\<open>metadata()\<close> is the value it returns.
\<close>

record Piece =
  piece_name :: string
  piece_displayName :: string
  piece_version :: string
  piece_minimumSupportedRelease :: "string option"
  piece_maximumSupportedRelease :: "string option"
  metadata :: PieceMetadataBase

record PackageJson =
  pkg_name :: string
  pkg_version :: string
  pkg_keywords :: "string list"

text \<open>
  The functions of the \<^verbatim>\<open>semver\<close> package the module calls.  \<^verbatim>\<open>semver.valid\<close>
  returns the normalised version or null; \<^verbatim>\<open>semver.gt\<close> and \<^verbatim>\<open>semver.lt\<close> throw on
  a version they cannot parse.
\<close>

record Semver =
  valid :: "string \<Rightarrow> string option"
  gt :: "string \<Rightarrow> string \<Rightarrow> error + bool"
  lt :: "string \<Rightarrow> string \<Rightarrow> error + bool"

text \<open>
  What the module reads from Node: files, JSON parsing of a package manifest, dynamic
  import of a module, extraction of the piece from the module, path joining, and the
  folders found by \<^verbatim>\<open>findAllDistPaths\<close>.
\<close>

record 'm NodeEnv =
  readFile :: "string \<Rightarrow> error + string"
  JSON_parse :: "string \<Rightarrow> error + PackageJson"
  import_module :: "string \<Rightarrow> error + 'm"
  extractPieceFromModule :: "'m \<Rightarrow> string \<Rightarrow> string \<Rightarrow> error + Piece"
  join :: "string list \<Rightarrow> string"
  findAllDistPaths :: "string list"

record StringOps =
  toUpperCase :: "string \<Rightarrow> string"
  localeCompare :: "string \<Rightarrow> string \<Rightarrow> int"

subsection \<open>JavaScript primitives\<close>

text \<open>Truthiness of a value of type \<^verbatim>\<open>string | null | undefined\<close>.\<close>

fun truthy :: "string option \<Rightarrow> bool" where
  "truthy None = False"
| "truthy (Some s) = (s \<noteq> [])"

text \<open>\<^verbatim>\<open>String.prototype.includes\<close>: the pattern occurs at some position.\<close>

fun str_includes :: "string \<Rightarrow> string \<Rightarrow> bool" where
  "str_includes [] pat = (pat = [])"
| "str_includes (c # cs) pat = (prefix pat (c # cs) \<or> str_includes cs pat)"

text \<open>
  \<^verbatim>\<open>Array.prototype.sort\<close> with a comparison function: a stable sort; an element
  moves in front of the first element it does not compare greater than.
\<close>

fun insort_by :: "('a \<Rightarrow> 'a \<Rightarrow> int) \<Rightarrow> 'a \<Rightarrow> 'a list \<Rightarrow> 'a list" where
  "insort_by cmp x [] = [x]"
| "insort_by cmp x (y # ys) =
     (if cmp x y \<le> 0 then x # y # ys else y # insort_by cmp x ys)"

definition sort_by :: "('a \<Rightarrow> 'a \<Rightarrow> int) \<Rightarrow> 'a list \<Rightarrow> 'a list" where
  "sort_by cmp xs = foldr (insort_by cmp) xs []"

subsection \<open>The module's functions\<close>

definition readJsonFile :: "'m NodeEnv \<Rightarrow> string \<Rightarrow> error + PackageJson" where
  "readJsonFile env path =
     (case readFile env path of
        Inl e \<Rightarrow> Inl e
      | Inr jsonFile \<Rightarrow> JSON_parse env jsonFile)"

definition readPackageJson :: "'m NodeEnv \<Rightarrow> string \<Rightarrow> error + PackageJson" where
  "readPackageJson env path = readJsonFile env (path @ ''/package.json'')"

definition validateSupportedRelease ::
  "Semver \<Rightarrow> string option \<Rightarrow> string option \<Rightarrow> error + unit" where
  "validateSupportedRelease sv minRelease maxRelease =
     (if (case minRelease of None \<Rightarrow> False | Some mn \<Rightarrow> \<not> truthy (valid sv mn))
      then Inl (Error ''[validateSupportedRelease] \"minimumSupportedRelease\" should be a valid semver version'')
      else if (case maxRelease of None \<Rightarrow> False | Some mx \<Rightarrow> \<not> truthy (valid sv mx))
      then Inl (Error ''[validateSupportedRelease] \"maximumSupportedRelease\" should be a valid semver version'')
      else (case (minRelease, maxRelease) of
              (Some mn, Some mx) \<Rightarrow>
                (case gt sv mn mx of
                   Inl e \<Rightarrow> Inl e
                 | Inr True \<Rightarrow> Inl (Error ''[validateSupportedRelease] \"minimumSupportedRelease\" should be less than \"maximumSupportedRelease\"'')
                 | Inr False \<Rightarrow> Inr ())
            | _ \<Rightarrow> Inr ()))"

definition validatePremiumPiece :: "Semver \<Rightarrow> PieceMetadata \<Rightarrow> error + unit" where
  "validatePremiumPiece sv piece =
     (let cats = (case categories piece of None \<Rightarrow> [] | Some cs \<Rightarrow> cs) in
      if (case directoryPath piece of None \<Rightarrow> False | Some d \<Rightarrow> str_includes d ''/ee/'')
         \<and> PREMIUM \<notin> set cats
      then Inl (Error ''[validatePremiumPiece] Premium pieces must be in the 'premium' category'')
      else if PREMIUM \<in> set cats
      then (case minimumSupportedRelease piece of
              None \<Rightarrow> Inl (Error ''[validatePremiumPiece] Premium pieces must have a minimum supported release of 0.27.1 or higher'')
            | Some mn \<Rightarrow>
                if \<not> truthy (Some mn)
                then Inl (Error ''[validatePremiumPiece] Premium pieces must have a minimum supported release of 0.27.1 or higher'')
                else (case lt sv mn ''0.27.1'' of
                        Inl e \<Rightarrow> Inl e
                      | Inr True \<Rightarrow> Inl (Error ''[validatePremiumPiece] Premium pieces must have a minimum supported release of 0.27.1 or higher'')
                      | Inr False \<Rightarrow> Inr ()))
      else Inr ())"

definition validateMetadata :: "Semver \<Rightarrow> PieceMetadata \<Rightarrow> error + unit" where
  "validateMetadata sv pieceMetadata =
     (case validateSupportedRelease sv
             (minimumSupportedRelease pieceMetadata)
             (maximumSupportedRelease pieceMetadata) of
        Inl e \<Rightarrow> Inl e
      | Inr _ \<Rightarrow> validatePremiumPiece sv pieceMetadata)"

definition byDisplayNameIgnoreCase :: "StringOps \<Rightarrow> PieceMetadata \<Rightarrow> PieceMetadata \<Rightarrow> int" where
  "byDisplayNameIgnoreCase ops a b =
     (let aName = toUpperCase ops (displayName a);
          bName = toUpperCase ops (displayName b)
      in localeCompare ops aName bName)"

text \<open>
  The metadata object \<^verbatim>\<open>loadPieceFromFolder\<close> assembles before validating it: the
  piece's own metadata, then name and version from the manifest, the folder as
  directory path, and the two release bounds with their defaults (\<^verbatim>\<open>??\<close> replaces
  only null and undefined).
\<close>

definition assembleMetadata :: "string \<Rightarrow> PackageJson \<Rightarrow> Piece \<Rightarrow> PieceMetadata" where
  "assembleMetadata folderPath packageJson piece =
     PieceMetadataBase.extend (metadata piece)
       (PieceMetadata.fields (pkg_name packageJson) (pkg_version packageJson))
     \<lparr> directoryPath := Some folderPath,
       name := pkg_name packageJson,
       version := pkg_version packageJson,
       minimumSupportedRelease :=
         Some (case piece_minimumSupportedRelease piece of None \<Rightarrow> ''0.0.0'' | Some v \<Rightarrow> v),
       maximumSupportedRelease :=
         Some (case piece_maximumSupportedRelease piece of
                 None \<Rightarrow> ''99999.99999.9999'' | Some v \<Rightarrow> v) \<rparr>"

text \<open>
  \<^verbatim>\<open>loadPieceFromFolder\<close>: the whole body is inside \<^verbatim>\<open>try\<close>; every exception is
  logged and the function returns null.
\<close>

definition loadPiece :: "'m NodeEnv \<Rightarrow> Semver \<Rightarrow> string \<Rightarrow> error + PieceMetadata" where
  "loadPiece env sv folderPath =
     (case readPackageJson env folderPath of
        Inl e \<Rightarrow> Inl e
      | Inr packageJson \<Rightarrow>
          (case import_module env (join env [folderPath, ''src'', ''index'']) of
             Inl e \<Rightarrow> Inl e
           | Inr module \<Rightarrow>
               (case extractPieceFromModule env module
                       (pkg_name packageJson) (pkg_version packageJson) of
                  Inl e \<Rightarrow> Inl e
                | Inr piece \<Rightarrow>
                    (let md = assembleMetadata folderPath packageJson piece in
                     case validateMetadata sv md of
                       Inl e \<Rightarrow> Inl e
                     | Inr _ \<Rightarrow> Inr md))))"

definition loadPieceFromFolder :: "'m NodeEnv \<Rightarrow> Semver \<Rightarrow> string \<Rightarrow> PieceMetadata option" where
  "loadPieceFromFolder env sv folderPath =
     (case loadPiece env sv folderPath of
        Inl ex \<Rightarrow> None
      | Inr md \<Rightarrow> Some md)"

definition findAllPieces :: "'m NodeEnv \<Rightarrow> Semver \<Rightarrow> StringOps \<Rightarrow> PieceMetadata list" where
  "findAllPieces env sv ops =
     (let paths = findAllDistPaths env;
          pieces = map (\<lambda>p. loadPieceFromFolder env sv p) paths
      in sort_by (byDisplayNameIgnoreCase ops)
           (map the (filter (\<lambda>p. p \<noteq> None) pieces)))"

definition findPiece :: "'m NodeEnv \<Rightarrow> Semver \<Rightarrow> StringOps \<Rightarrow> string \<Rightarrow> PieceMetadata option" where
  "findPiece env sv ops pieceName =
     find (\<lambda>p. name p = pieceName) (findAllPieces env sv ops)"

section \<open>A concrete runtime for evaluation\<close>

text \<open>
  To run the module on concrete folders the parameters are instantiated: a semver
  implementation for plain \<^verbatim>\<open>MAJOR.MINOR.PATCH\<close> versions (numeric identifiers without
  leading zeros, compared numerically from the left), upper-casing of ASCII letters with
  comparison by character code, and a small file system.
\<close>

definition is_digit :: "char \<Rightarrow> bool" where
  "is_digit c = (48 \<le> (of_char c :: nat) \<and> (of_char c :: nat) \<le> 57)"

fun split_on_dot :: "string \<Rightarrow> string list" where
  "split_on_dot [] = [[]]"
| "split_on_dot (c # cs) =
     (if c = CHR ''.'' then [] # split_on_dot cs
      else (case split_on_dot cs of [] \<Rightarrow> [[c]] | p # ps \<Rightarrow> (c # p) # ps))"

definition parse_numeric :: "string \<Rightarrow> nat option" where
  "parse_numeric s =
     (if s \<noteq> [] \<and> list_all is_digit s \<and> (length s = 1 \<or> hd s \<noteq> CHR ''0'')
      then Some (foldl (\<lambda>n c. 10 * n + (of_char c - 48)) 0 s)
      else None)"

definition parse_version :: "string \<Rightarrow> (nat \<times> nat \<times> nat) option" where
  "parse_version v =
     (case split_on_dot v of
        [a, b, c] \<Rightarrow>
          (case (parse_numeric a, parse_numeric b, parse_numeric c) of
             (Some x, Some y, Some z) \<Rightarrow> Some (x, y, z)
           | _ \<Rightarrow> None)
      | _ \<Rightarrow> None)"

fun version_less :: "nat \<times> nat \<times> nat \<Rightarrow> nat \<times> nat \<times> nat \<Rightarrow> bool" where
  "version_less (a, b, c) (x, y, z) = (a < x \<or> a = x \<and> (b < y \<or> b = y \<and> c < z))"

definition semver_compare :: "(nat \<times> nat \<times> nat \<Rightarrow> nat \<times> nat \<times> nat \<Rightarrow> bool) \<Rightarrow> string \<Rightarrow> string \<Rightarrow> error + bool" where
  "semver_compare rel a b =
     (case (parse_version a, parse_version b) of
        (Some x, Some y) \<Rightarrow> Inr (rel x y)
      | _ \<Rightarrow> Inl (TypeError ''Invalid Version''))"

definition semver_numeric :: Semver where
  "semver_numeric =
     \<lparr> valid = (\<lambda>v. case parse_version v of None \<Rightarrow> None | Some _ \<Rightarrow> Some v),
       gt = semver_compare (\<lambda>x y. version_less y x),
       lt = semver_compare version_less \<rparr>"

definition ascii_upper :: "char \<Rightarrow> char" where
  "ascii_upper c =
     (case map_of (zip ''abcdefghijklmnopqrstuvwxyz'' ''ABCDEFGHIJKLMNOPQRSTUVWXYZ'') c of
        None \<Rightarrow> c
      | Some u \<Rightarrow> u)"

definition ascii_ops :: StringOps where
  "ascii_ops =
     \<lparr> toUpperCase = map ascii_upper,
       localeCompare = (\<lambda>a b. if a < b then - 1 else if a = b then 0 else 1) \<rparr>"



text \<open>
  The piece of \<^verbatim>\<open>packages/pieces/community/nocodb/src/index.ts\<close>: display name
  \<^verbatim>\<open>NocoDB\<close>, minimum supported release \<^verbatim>\<open>0.20.0\<close>, no maximum, no categories.
\<close>

definition nocodb :: Piece where
  "nocodb =
     \<lparr> piece_name = ''nocodb'', piece_displayName = ''NocoDB'', piece_version = ''0.0.1'',
       piece_minimumSupportedRelease = Some ''0.20.0'',
       piece_maximumSupportedRelease = None,
       metadata = \<lparr> displayName = ''NocoDB'', directoryPath = None, categories = None,
                    minimumSupportedRelease = Some ''0.20.0'',
                    maximumSupportedRelease = None \<rparr> \<rparr>"

definition demo_piece :: "string \<Rightarrow> string option \<Rightarrow> string option \<Rightarrow> PieceCategory list option \<Rightarrow> Piece" where
  "demo_piece dn mn mx cats =
     \<lparr> piece_name = dn, piece_displayName = dn, piece_version = ''0.0.1'',
       piece_minimumSupportedRelease = mn,
       piece_maximumSupportedRelease = mx,
       metadata = \<lparr> displayName = dn, directoryPath = None, categories = cats,
                    minimumSupportedRelease = mn,
                    maximumSupportedRelease = mx \<rparr> \<rparr>"

definition demo_folders :: "(string \<times> Piece) list" where
  "demo_folders =
     [(''/p/nocodb'', nocodb),
      (''/p/bad'', demo_piece ''Bad'' (Some ''1.x'') None None),
      (''/p/airtable'', demo_piece ''airtable'' None None None),
      (''/p/reversed'', demo_piece ''Reversed'' (Some ''2.0.0'') (Some ''1.0.0'') None),
      (''/ee/p/sso'', demo_piece ''Sso'' None None None),
      (''/ee/p/audit'', demo_piece ''Audit'' (Some ''0.27.1'') None (Some [PREMIUM]))]"

definition demo_env :: "Piece NodeEnv" where
  "demo_env =
     \<lparr> readFile = (\<lambda>p. if p \<in> set (map (\<lambda>(f, _). f @ ''/package.json'') demo_folders)
                         then Inr p else Inl (ENOENT p)),
       JSON_parse = (\<lambda>s. Inr \<lparr> pkg_name = s, pkg_version = ''0.0.1'', pkg_keywords = [] \<rparr>),
       import_module = (\<lambda>p. case map_of (map (\<lambda>(f, pc). (f @ ''/src/index'', pc)) demo_folders) p of
                               None \<Rightarrow> Inl (Error ''Cannot find module'')
                             | Some pc \<Rightarrow> Inr pc),
       extractPieceFromModule = (\<lambda>m n v. Inr m),
       join = (\<lambda>ps. case ps of [] \<Rightarrow> ''.'' | q # qs \<Rightarrow> foldl (\<lambda>a b. a @ ''/'' @ b) q qs),
       findAllDistPaths = map fst demo_folders @ [''/p/missing''] \<rparr>"

definition demo_metadata :: "string \<Rightarrow> Piece \<Rightarrow> PieceMetadata" where
  "demo_metadata f pc =
     assembleMetadata f \<lparr> pkg_name = f @ ''/package.json'', pkg_version = ''0.0.1'', pkg_keywords = [] \<rparr> pc"

section \<open>The flow engine: constants and actions built by the test helper\<close>

text \<open>
  The values carried by inputs, outputs and payloads (\<^verbatim>\<open>unknown\<close> in
  the test helper): JSON values.
\<close>

datatype json =
    JNull
  | JBool bool
  | JNum int
  | JStr string
  | JArr "json list"
  | JObj "(string \<times> json) list"

text \<open>
  Modelled from the spec: the enumeration \<^verbatim>\<open>FlowVersionState\<close> is
  declared in the shared package; the test helper names \<^verbatim>\<open>DRAFT\<close>,
  the spec names the lifecycle states draft and published.
\<close>

datatype FlowVersionState = DRAFT | PUBLISHED

text \<open>
  Modelled from the spec: the enumeration \<^verbatim>\<open>ProgressUpdateType\<close> is
  declared in the shared package; the test helper names \<^verbatim>\<open>NONE\<close>, the
  spec names the modes none, per-step and final-only.
\<close>

datatype ProgressUpdateType = NONE | PER_STEP | FINAL_ONLY

text \<open>
  From the test helper: the retry policy record passed to the constructor, with the fields
  \<^verbatim>\<open>maxAttempts\<close>, \<^verbatim>\<open>retryExponential\<close> and
  \<^verbatim>\<open>retryInterval\<close>. Attempt counts, the backoff factor and the base
  delay are natural numbers.
\<close>

record RetryConstants =
  maxAttempts :: nat
  retryExponential :: nat
  retryInterval :: nat

text \<open>
  Modelled from the spec: the class \<^verbatim>\<open>VariableService\<close> is outside
  the sources; the test helper constructs it from a project identifier, an engine token and
  an API URL, and the spec parameterises the Variable Resolver per project and token.
\<close>

record VariableService =
  vs_projectId :: string
  vs_engineToken :: string
  vs_apiUrl :: string

text \<open>
  Modelled from the spec: the class \<^verbatim>\<open>EngineConstants\<close> is outside
  the sources. Its fields are the fifteen roles the spec lists for the Engine Constants,
  under the names the test helper reads from
  \<^verbatim>\<open>Partial<EngineConstants>\<close>.
\<close>

record EngineConstants =
  flowId :: string
  flowVersionId :: string
  flowVersionState :: FlowVersionState
  flowRunId :: string
  publicUrl :: string
  internalApiUrl :: string
  retryConstants :: RetryConstants
  engineToken :: string
  projectId :: string
  variableService :: VariableService
  testSingleStepMode :: bool
  progressUpdateType :: ProgressUpdateType
  serverHandlerId :: "string option"
  httpRequestId :: "string option"
  resumePayload :: "json option"

text \<open>
  From the test helper: \<^verbatim>\<open>Partial<EngineConstants>\<close>, the optional
  overrides of \<^verbatim>\<open>generateMockEngineConstants\<close>: every field may be
  absent.
\<close>

record EngineConstantsPartial =
  p_flowId :: "string option"
  p_flowVersionId :: "string option"
  p_flowVersionState :: "FlowVersionState option"
  p_flowRunId :: "string option"
  p_publicUrl :: "string option"
  p_internalApiUrl :: "string option"
  p_retryConstants :: "RetryConstants option"
  p_engineToken :: "string option"
  p_projectId :: "string option"
  p_variableService :: "VariableService option"
  p_testSingleStepMode :: "bool option"
  p_progressUpdateType :: "ProgressUpdateType option"
  p_serverHandlerId :: "string option"
  p_httpRequestId :: "string option"
  p_resumePayload :: "json option"

text \<open>
  Modelled from the spec: the constructor of \<^verbatim>\<open>EngineConstants\<close> is
  outside the sources; it takes the fifteen fields positionally, in the order the spec lists
  them and the test helper passes them.
\<close>

definition new_EngineConstants ::
  "string \<Rightarrow> string \<Rightarrow> FlowVersionState \<Rightarrow> string \<Rightarrow> string \<Rightarrow> string
     \<Rightarrow> RetryConstants \<Rightarrow> string \<Rightarrow> string \<Rightarrow> VariableService \<Rightarrow> bool
     \<Rightarrow> ProgressUpdateType \<Rightarrow> string option \<Rightarrow> string option \<Rightarrow> json option
     \<Rightarrow> EngineConstants" where
  "new_EngineConstants a1 a2 a3 a4 a5 a6 a7 a8 a9 a10 a11 a12 a13 a14 a15 =
     \<lparr> flowId = a1, flowVersionId = a2, flowVersionState = a3, flowRunId = a4,
       publicUrl = a5, internalApiUrl = a6, retryConstants = a7, engineToken = a8,
       projectId = a9, variableService = a10, testSingleStepMode = a11,
       progressUpdateType = a12, serverHandlerId = a13, httpRequestId = a14,
       resumePayload = a15 \<rparr>"

text \<open>
  Modelled from the spec: the constructor of \<^verbatim>\<open>VariableService\<close> is
  outside the sources; the test helper passes it \<^verbatim>\<open>projectId\<close>,
  \<^verbatim>\<open>engineToken\<close> and \<^verbatim>\<open>apiUrl\<close>.
\<close>

definition new_VariableService :: "string \<Rightarrow> string \<Rightarrow> string \<Rightarrow> VariableService" where
  "new_VariableService pid tok url =
     \<lparr> vs_projectId = pid, vs_engineToken = tok, vs_apiUrl = url \<rparr>"

text \<open>
  The operator \<^verbatim>\<open>??\<close>: the right operand replaces null and undefined
  only.
\<close>

definition nullish :: "'a option \<Rightarrow> 'a \<Rightarrow> 'a" where
  "nullish x d = (case x of None \<Rightarrow> d | Some v \<Rightarrow> v)"

text \<open>
  The optional access \<^verbatim>\<open>params?.field\<close>: undefined when
  \<^verbatim>\<open>params\<close> is.
\<close>

definition opt_chain :: "'p option \<Rightarrow> ('p \<Rightarrow> 'a option) \<Rightarrow> 'a option" where
  "opt_chain params field = (case params of None \<Rightarrow> None | Some p \<Rightarrow> field p)"

text \<open>
  From the test helper: \<^verbatim>\<open>generateMockEngineConstants\<close>. The handler
  identifiers default to null, and the resume payload is passed as given.
\<close>

definition generateMockEngineConstants :: "EngineConstantsPartial option \<Rightarrow> EngineConstants" where
  "generateMockEngineConstants params =
     new_EngineConstants
       (nullish (opt_chain params p_flowId) ''flowId'')
       (nullish (opt_chain params p_flowVersionId) ''flowVersionId'')
       (nullish (opt_chain params p_flowVersionState) DRAFT)
       (nullish (opt_chain params p_flowRunId) ''flowRunId'')
       (nullish (opt_chain params p_publicUrl) ''http://127.0.0.1:3000'')
       (nullish (opt_chain params p_internalApiUrl) ''http://127.0.0.1:3000'')
       (nullish (opt_chain params p_retryConstants)
          \<lparr> maxAttempts = 2, retryExponential = 1, retryInterval = 1 \<rparr>)
       (nullish (opt_chain params p_engineToken) ''engineToken'')
       (nullish (opt_chain params p_projectId) ''projectId'')
       (nullish (opt_chain params p_variableService)
          (new_VariableService ''projectId'' ''engineToken'' ''http://127.0.0.1:3000''))
       (nullish (opt_chain params p_testSingleStepMode) False)
       (nullish (opt_chain params p_progressUpdateType) NONE)
       (opt_chain params p_serverHandlerId)
       (opt_chain params p_httpRequestId)
       (opt_chain params p_resumePayload)"

text \<open>
  From the test helper: the four action kinds.
\<close>

datatype ActionType = CODE | BRANCH | LOOP_ON_ITEMS | PIECE

text \<open>
  Modelled from the spec: the type \<^verbatim>\<open>ActionErrorHandlingOptions\<close> is
  declared in the shared package; the spec gives an action two independent flags,
  continue-on-failure and retry-on-failure.
\<close>

record ActionErrorHandlingOptions =
  continueOnFailure :: "bool option"
  retryOnFailure :: "bool option"

text \<open>
  From the test helper: the source code of a code action.
\<close>

record SourceCode =
  packageJson :: string
  code :: string

text \<open>
  From the test helper: the settings \<^verbatim>\<open>buildCodeAction\<close> fills in.
\<close>

record CodeActionSettings =
  code_input :: "(string \<times> json) list"
  sourceCode :: SourceCode
  code_errorHandlingOptions :: "ActionErrorHandlingOptions option"

text \<open>
  From the test helper: the enumeration \<^verbatim>\<open>PackageType\<close> is declared
  in the shared package; the test helper names \<^verbatim>\<open>REGISTRY\<close>.
\<close>

datatype PackageType = REGISTRY | OTHER_PACKAGE_TYPE string

text \<open>
  From the test helper: the enumeration \<^verbatim>\<open>PieceType\<close> is declared in
  the shared package; the test helper names \<^verbatim>\<open>OFFICIAL\<close>.
\<close>

datatype PieceType = OFFICIAL | OTHER_PIECE_TYPE string

text \<open>
  From the test helper: the settings \<^verbatim>\<open>buildPieceAction\<close> fills in.
\<close>

record PieceActionSettings =
  piece_input :: "(string \<times> json) list"
  pieceName :: string
  packageType :: PackageType
  pieceVersion :: string
  pieceType :: PieceType
  actionName :: string
  piece_errorHandlingOptions :: "ActionErrorHandlingOptions option"

text \<open>
  From the test helper: the settings \<^verbatim>\<open>buildActionWithOneCondition\<close>
  fills in: a list of condition groups, each a list of conditions. The type
  \<^verbatim>\<open>BranchCondition\<close> is declared in the shared package and is a type
  parameter here. The error handling options are the ones the spec gives every action.
\<close>

record 'c BranchActionSettings =
  conditions :: "'c list list"
  branch_errorHandlingOptions :: "ActionErrorHandlingOptions option"

text \<open>
  From the test helper: the settings \<^verbatim>\<open>buildSimpleLoopAction\<close> fills
  in. The error handling options are the ones the spec gives every action.
\<close>

record LoopOnItemsActionSettings =
  items :: string
  loop_errorHandlingOptions :: "ActionErrorHandlingOptions option"

text \<open>
  From the test helper: the four shapes of action the builders return. A code, loop or piece
  action has an optional \<^verbatim>\<open>nextAction\<close>, a branch has optional
  \<^verbatim>\<open>onSuccessAction\<close> and \<^verbatim>\<open>onFailureAction\<close>,
  a loop has an optional \<^verbatim>\<open>firstLoopAction\<close>. The field
  \<^verbatim>\<open>inputUiInfo\<close> is always the empty object and is left out.
\<close>

datatype 'c Action =
    CodeAction (action_name: string) (action_displayName: string)
      (codeSettings: CodeActionSettings)
      (nextAction: "'c Action option") (action_valid: bool)
  | BranchAction (action_name: string) (action_displayName: string)
      (branchSettings: "'c BranchActionSettings")
      (onSuccessAction: "'c Action option") (onFailureAction: "'c Action option")
      (action_valid: bool)
  | LoopOnItemsAction (action_name: string) (action_displayName: string)
      (loopSettings: LoopOnItemsActionSettings)
      (firstLoopAction: "'c Action option")
      (nextAction: "'c Action option") (action_valid: bool)
  | PieceAction (action_name: string) (action_displayName: string)
      (pieceSettings: PieceActionSettings)
      (nextAction: "'c Action option") (action_valid: bool)

text \<open>
  From the test helper: the field \<^verbatim>\<open>type\<close> of each shape.
\<close>

fun action_type :: "'c Action \<Rightarrow> ActionType" where
  "action_type (CodeAction _ _ _ _ _) = CODE"
| "action_type (BranchAction _ _ _ _ _ _) = BRANCH"
| "action_type (LoopOnItemsAction _ _ _ _ _ _) = LOOP_ON_ITEMS"
| "action_type (PieceAction _ _ _ _ _) = PIECE"


text \<open>
  From the test helper: \<^verbatim>\<open>buildActionWithOneCondition\<close>: one group
  holding one condition.
\<close>

definition buildActionWithOneCondition ::
  "'c \<Rightarrow> 'c Action option \<Rightarrow> 'c Action option \<Rightarrow> 'c Action" where
  "buildActionWithOneCondition condition onSuccess onFailure =
     BranchAction ''branch'' ''Your Branch Name''
       \<lparr> conditions = [[condition]], branch_errorHandlingOptions = None \<rparr>
       onSuccess onFailure True"

text \<open>
  From the test helper: \<^verbatim>\<open>buildCodeAction\<close>.
\<close>

definition buildCodeAction ::
  "string \<Rightarrow> (string \<times> json) list \<Rightarrow> 'c Action option
     \<Rightarrow> ActionErrorHandlingOptions option \<Rightarrow> 'c Action" where
  "buildCodeAction nm inp next errorHandling =
     CodeAction nm ''Your Action Name''
       \<lparr> code_input = inp,
         sourceCode = \<lparr> packageJson = [], code = [] \<rparr>,
         code_errorHandlingOptions = errorHandling \<rparr>
       next True"

text \<open>
  From the test helper: \<^verbatim>\<open>buildPieceAction\<close>.
\<close>

definition buildPieceAction ::
  "string \<Rightarrow> (string \<times> json) list \<Rightarrow> string \<Rightarrow> string \<Rightarrow> 'c Action option
     \<Rightarrow> ActionErrorHandlingOptions option \<Rightarrow> 'c Action" where
  "buildPieceAction nm inp piece act next errorHandling =
     PieceAction nm ''Your Action Name''
       \<lparr> piece_input = inp, pieceName = piece, packageType = REGISTRY,
         pieceVersion = ''1.0.0'', pieceType = OFFICIAL, actionName = act,
         piece_errorHandlingOptions = errorHandling \<rparr>
       next True"

section \<open>The flow engine: variable resolution\<close>

text \<open>
  Modelled from the spec: the error kinds of the engine are outside the sources; these are
  the five kinds the spec names, an executor error carrying its detail.
\<close>

datatype ErrorKind = InvalidAction | ResolutionError | ExecutorError string | Cancelled | Timeout

text \<open>
  Modelled from the spec: the Variable Resolver is outside the sources. A reference
  addresses another action's recorded output by name with a dotted path, the current loop
  item or index, or the run-level constants flow id and run id.
\<close>

datatype reference =
    StepRef string "string list"
  | LoopItemRef "string list"
  | LoopIndexRef
  | FlowIdRef
  | RunIdRef

text \<open>
  Modelled from the spec: a template is text with embedded reference tokens. The spec does
  not fix the concrete token syntax, so a template is handled after lexing.
\<close>

datatype token = Text string | Reference reference

text \<open>
  Modelled from the spec: what the spec leaves open in the Variable Resolver: the lexer of
  templates and the text a substituted value is written as.
\<close>

record TemplateLanguage =
  tokenize :: "string \<Rightarrow> token list"
  stringify :: "json \<Rightarrow> string"

text \<open>
  Modelled from the spec: the status recorded with an action's output.
\<close>

datatype StepStatus = STEP_SUCCEEDED | STEP_FAILED

text \<open>
  Modelled from the spec: what the Run Context records for an action: its output, its status
  and, when it errored, the error.
\<close>

record StepOutput =
  step_output :: json
  step_status :: StepStatus
  errorDetail :: "ErrorKind option"

text \<open>
  Modelled from the spec: the Run Context, an append-only mapping from action name to
  recorded output, kept in execution order, with the item and index of the current loop
  iteration when inside one.
\<close>

record RunContext =
  steps :: "(string \<times> StepOutput) list"
  loopItem :: "(json \<times> nat) option"

text \<open>
  Modelled from the spec: the Run Outcome: succeeded, failed with the failing action and the
  error, or paused at an action with a resume key; each carries the Run Context reached.
\<close>

datatype RunOutcome =
    SUCCEEDED RunContext
  | FAILED string ErrorKind RunContext
  | PAUSED string string RunContext

text \<open>
  Modelled from the spec: dotted-path access into a structured output; an absent or
  malformed path is a resolution error.
\<close>

fun get_path :: "json \<Rightarrow> string list \<Rightarrow> ErrorKind + json" where
  "get_path v [] = Inr v"
| "get_path (JObj kvs) (k # ks) =
     (case map_of kvs k of
        None \<Rightarrow> Inl ResolutionError
      | Some v \<Rightarrow> get_path v ks)"
| "get_path _ (k # ks) = Inl ResolutionError"

text \<open>
  Modelled from the spec: resolution of one reference; a referenced action name that is not
  in the Run Context fails with \<open>ResolutionError\<close>, and so does a loop reference
  outside a loop.
\<close>

fun resolve_reference :: "RunContext \<Rightarrow> EngineConstants \<Rightarrow> reference \<Rightarrow> ErrorKind + json" where
  "resolve_reference ctx constants (StepRef nm path) =
     (case map_of (steps ctx) nm of
        None \<Rightarrow> Inl ResolutionError
      | Some s \<Rightarrow> get_path (step_output s) path)"
| "resolve_reference ctx constants (LoopItemRef path) =
     (case loopItem ctx of
        None \<Rightarrow> Inl ResolutionError
      | Some (item, index) \<Rightarrow> get_path item path)"
| "resolve_reference ctx constants LoopIndexRef =
     (case loopItem ctx of
        None \<Rightarrow> Inl ResolutionError
      | Some (item, index) \<Rightarrow> Inr (JNum (int index)))"
| "resolve_reference ctx constants FlowIdRef = Inr (JStr (flowId constants))"
| "resolve_reference ctx constants RunIdRef = Inr (JStr (flowRunId constants))"

text \<open>
  Modelled from the spec: the tokens of a template are resolved from left to right, the
  first error ending the resolution.
\<close>

fun resolve_tokens :: "RunContext \<Rightarrow> EngineConstants \<Rightarrow> token list \<Rightarrow> ErrorKind + json list" where
  "resolve_tokens ctx constants [] = Inr []"
| "resolve_tokens ctx constants (Text s # ts) =
     (case resolve_tokens ctx constants ts of
        Inl e \<Rightarrow> Inl e
      | Inr vs \<Rightarrow> Inr (JStr s # vs))"
| "resolve_tokens ctx constants (Reference r # ts) =
     (case resolve_reference ctx constants r of
        Inl e \<Rightarrow> Inl e
      | Inr v \<Rightarrow>
          (case resolve_tokens ctx constants ts of
             Inl e \<Rightarrow> Inl e
           | Inr vs \<Rightarrow> Inr (v # vs)))"

text \<open>
  Modelled from the spec: the fully substituted value of a template string: the referenced
  value itself when the template is one token, the concatenated text otherwise.
\<close>

definition resolve_template ::
  "TemplateLanguage \<Rightarrow> RunContext \<Rightarrow> EngineConstants \<Rightarrow> string \<Rightarrow> ErrorKind + json" where
  "resolve_template lang ctx constants s =
     (case resolve_tokens ctx constants (tokenize lang s) of
        Inl e \<Rightarrow> Inl e
      | Inr [v] \<Rightarrow> Inr v
      | Inr vs \<Rightarrow> Inr (JStr (concat (map (stringify lang) vs))))"

text \<open>
  Modelled from the spec: resolution of a structured input: every string in it is a template.
\<close>

fun resolve_value ::
    "TemplateLanguage \<Rightarrow> RunContext \<Rightarrow> EngineConstants \<Rightarrow> json \<Rightarrow> ErrorKind + json"
  and resolve_values ::
    "TemplateLanguage \<Rightarrow> RunContext \<Rightarrow> EngineConstants \<Rightarrow> json list \<Rightarrow> ErrorKind + json list"
  and resolve_fields ::
    "TemplateLanguage \<Rightarrow> RunContext \<Rightarrow> EngineConstants \<Rightarrow> (string \<times> json) list
       \<Rightarrow> ErrorKind + (string \<times> json) list" where
  "resolve_value lang ctx constants (JStr s) = resolve_template lang ctx constants s"
| "resolve_value lang ctx constants (JArr vs) =
     (case resolve_values lang ctx constants vs of Inl e \<Rightarrow> Inl e | Inr rs \<Rightarrow> Inr (JArr rs))"
| "resolve_value lang ctx constants (JObj kvs) =
     (case resolve_fields lang ctx constants kvs of Inl e \<Rightarrow> Inl e | Inr rs \<Rightarrow> Inr (JObj rs))"
| "resolve_value lang ctx constants JNull = Inr JNull"
| "resolve_value lang ctx constants (JBool b) = Inr (JBool b)"
| "resolve_value lang ctx constants (JNum n) = Inr (JNum n)"
| "resolve_values lang ctx constants [] = Inr []"
| "resolve_values lang ctx constants (v # vs) =
     (case resolve_value lang ctx constants v of
        Inl e \<Rightarrow> Inl e
      | Inr r \<Rightarrow>
          (case resolve_values lang ctx constants vs of
             Inl e \<Rightarrow> Inl e
           | Inr rs \<Rightarrow> Inr (r # rs)))"
| "resolve_fields lang ctx constants [] = Inr []"
| "resolve_fields lang ctx constants ((k, v) # kvs) =
     (case resolve_value lang ctx constants v of
        Inl e \<Rightarrow> Inl e
      | Inr r \<Rightarrow>
          (case resolve_fields lang ctx constants kvs of
             Inl e \<Rightarrow> Inl e
           | Inr rs \<Rightarrow> Inr ((k, r) # rs)))"

section \<open>The flow engine: step executors and interpreter\<close>

text \<open>
  Modelled from the spec: the answer of the capability provider: an output, a pause with a
  resume key, or an error.
\<close>

datatype ProviderResult = ProviderOutput json | ProviderPaused string | ProviderError string

text \<open>
  Modelled from the spec: the operations the step executors rest on and the engine does not
  define: evaluation of a code action's script on its resolved input, evaluation of one
  branch condition on its resolved operands, and the call of the capability provider. The
  attempt number stands for whatever makes one attempt differ from the next.
\<close>

record 'c Executors =
  run_code :: "SourceCode \<Rightarrow> (string \<times> json) list \<Rightarrow> nat \<Rightarrow> string + json"
  evaluate_condition :: "'c \<Rightarrow> RunContext \<Rightarrow> EngineConstants \<Rightarrow> ErrorKind + bool"
  invoke :: "string \<Rightarrow> string \<Rightarrow> (string \<times> json) list \<Rightarrow> string \<Rightarrow> string \<times> string \<Rightarrow> nat
               \<Rightarrow> ProviderResult"

text \<open>
  Modelled from the spec: the result of one attempt of a step executor.
\<close>

datatype AttemptResult = Completed json | Errored ErrorKind | Suspended string

text \<open>
  Modelled from the spec: the continue-on-failure flag of an action.
\<close>

definition continue_enabled :: "ActionErrorHandlingOptions option \<Rightarrow> bool" where
  "continue_enabled opts =
     (case opts of None \<Rightarrow> False | Some eh \<Rightarrow> continueOnFailure eh = Some True)"

text \<open>
  Modelled from the spec: the retry-on-failure flag of an action.
\<close>

definition retry_enabled :: "ActionErrorHandlingOptions option \<Rightarrow> bool" where
  "retry_enabled opts =
     (case opts of None \<Rightarrow> False | Some eh \<Rightarrow> retryOnFailure eh = Some True)"

text \<open>
  Modelled from the spec: the backoff delay after a failed attempt,
  \<^verbatim>\<open>retryInterval * retryExponential^(attempt-1)\<close>.
\<close>

definition backoff_delay :: "RetryConstants \<Rightarrow> nat \<Rightarrow> nat" where
  "backoff_delay rc attempt = retryInterval rc * retryExponential rc ^ (attempt - 1)"

text \<open>
  Modelled from the spec: the attempts made for one action and the delays waited between them.
\<close>

record RetryLog =
  invocations :: "nat list"
  delays :: "nat list"

text \<open>
  Modelled from the spec: the retry policy: after a failed attempt the engine waits the
  backoff delay and tries again, up to the given number of attempts; nothing is tried once
  the attempts are exhausted.
\<close>

fun retry_loop ::
  "RetryConstants \<Rightarrow> (nat \<Rightarrow> AttemptResult) \<Rightarrow> nat \<Rightarrow> nat \<Rightarrow> AttemptResult \<times> RetryLog" where
  "retry_loop rc exec attempt 0 = (Errored Timeout, \<lparr> invocations = [], delays = [] \<rparr>)"
| "retry_loop rc exec attempt (Suc remaining) =
     (case exec attempt of
        Errored e \<Rightarrow>
          (if remaining = 0
           then (Errored e, \<lparr> invocations = [attempt], delays = [] \<rparr>)
           else (case retry_loop rc exec (Suc attempt) remaining of
                   (r, lg) \<Rightarrow>
                     (r, \<lparr> invocations = attempt # invocations lg,
                          delays = backoff_delay rc attempt # delays lg \<rparr>)))
      | r \<Rightarrow> (r, \<lparr> invocations = [attempt], delays = [] \<rparr>))"

text \<open>
  Modelled from the spec: an action with retry-on-failure gets
  \<^verbatim>\<open>maxAttempts\<close> attempts, any other action one.
\<close>

definition run_with_policy ::
  "ActionErrorHandlingOptions option \<Rightarrow> RetryConstants \<Rightarrow> (nat \<Rightarrow> AttemptResult)
     \<Rightarrow> AttemptResult \<times> RetryLog" where
  "run_with_policy opts rc exec =
     (if retry_enabled opts
      then retry_loop rc exec 1 (maxAttempts rc)
      else (exec 1, \<lparr> invocations = [1], delays = [] \<rparr>))"

text \<open>
  Modelled from the spec: the code executor returns the script's value as output; a thrown
  error is the action's failure.
\<close>

definition code_attempt ::
  "'c Executors \<Rightarrow> CodeActionSettings \<Rightarrow> (string \<times> json) list \<Rightarrow> nat \<Rightarrow> AttemptResult" where
  "code_attempt ex settings resolved attempt =
     (case run_code ex (sourceCode settings) resolved attempt of
        Inl msg \<Rightarrow> Errored (ExecutorError msg)
      | Inr v \<Rightarrow> Completed v)"

text \<open>
  Modelled from the spec: the code executor resolves the action's input and evaluates the
  script under the retry policy.
\<close>

definition code_executor ::
  "TemplateLanguage \<Rightarrow> 'c Executors \<Rightarrow> EngineConstants \<Rightarrow> CodeActionSettings \<Rightarrow> RunContext
     \<Rightarrow> AttemptResult \<times> RetryLog" where
  "code_executor lang ex constants settings ctx =
     (case resolve_fields lang ctx constants (code_input settings) of
        Inl e \<Rightarrow> (Errored e, \<lparr> invocations = [], delays = [] \<rparr>)
      | Inr resolved \<Rightarrow>
          run_with_policy (code_errorHandlingOptions settings) (retryConstants constants)
            (code_attempt ex settings resolved))"

text \<open>
  Modelled from the spec: the piece executor calls the capability provider with the resolved
  input, the run's authorization token and the base URLs; the provider may answer with a
  pause.
\<close>

definition piece_attempt ::
  "'c Executors \<Rightarrow> EngineConstants \<Rightarrow> PieceActionSettings \<Rightarrow> (string \<times> json) list \<Rightarrow> nat
     \<Rightarrow> AttemptResult" where
  "piece_attempt ex constants settings resolved attempt =
     (case invoke ex (pieceName settings) (actionName settings) resolved (engineToken constants)
             (publicUrl constants, internalApiUrl constants) attempt of
        ProviderOutput v \<Rightarrow> Completed v
      | ProviderPaused resumeKey \<Rightarrow> Suspended resumeKey
      | ProviderError msg \<Rightarrow> Errored (ExecutorError msg))"

text \<open>
  Modelled from the spec: the piece executor resolves the input fields and calls the
  provider under the retry policy.
\<close>

definition piece_executor ::
  "TemplateLanguage \<Rightarrow> 'c Executors \<Rightarrow> EngineConstants \<Rightarrow> PieceActionSettings \<Rightarrow> RunContext
     \<Rightarrow> AttemptResult \<times> RetryLog" where
  "piece_executor lang ex constants settings ctx =
     (case resolve_fields lang ctx constants (piece_input settings) of
        Inl e \<Rightarrow> (Errored e, \<lparr> invocations = [], delays = [] \<rparr>)
      | Inr resolved \<Rightarrow>
          run_with_policy (piece_errorHandlingOptions settings) (retryConstants constants)
            (piece_attempt ex constants settings resolved))"

text \<open>
  Modelled from the spec: a condition group is the conjunction of its conditions, evaluated
  from left to right and stopping at the first that is false.
\<close>

fun group_satisfied ::
  "'c Executors \<Rightarrow> RunContext \<Rightarrow> EngineConstants \<Rightarrow> 'c list \<Rightarrow> ErrorKind + bool" where
  "group_satisfied ex ctx constants [] = Inr True"
| "group_satisfied ex ctx constants (c # cs) =
     (case evaluate_condition ex c ctx constants of
        Inl e \<Rightarrow> Inl e
      | Inr False \<Rightarrow> Inr False
      | Inr True \<Rightarrow> group_satisfied ex ctx constants cs)"

text \<open>
  Modelled from the spec: the groups are combined by disjunction, in order.
\<close>

fun any_group_satisfied ::
  "'c Executors \<Rightarrow> RunContext \<Rightarrow> EngineConstants \<Rightarrow> 'c list list \<Rightarrow> ErrorKind + bool" where
  "any_group_satisfied ex ctx constants [] = Inr False"
| "any_group_satisfied ex ctx constants (g # gs) =
     (case group_satisfied ex ctx constants g of
        Inl e \<Rightarrow> Inl e
      | Inr True \<Rightarrow> Inr True
      | Inr False \<Rightarrow> any_group_satisfied ex ctx constants gs)"

text \<open>
  Modelled from the spec: the sub-chain a branch selects.
\<close>

datatype BranchChoice = OnSuccess | OnFailure

text \<open>
  Modelled from the spec: the branch executor selects the success chain if a group is fully
  satisfied and the failure chain otherwise.
\<close>

definition branch_executor ::
  "'c Executors \<Rightarrow> EngineConstants \<Rightarrow> 'c BranchActionSettings \<Rightarrow> RunContext
     \<Rightarrow> ErrorKind + BranchChoice" where
  "branch_executor ex constants settings ctx =
     (case any_group_satisfied ex ctx constants (conditions settings) of
        Inl e \<Rightarrow> Inl e
      | Inr True \<Rightarrow> Inr OnSuccess
      | Inr False \<Rightarrow> Inr OnFailure)"

text \<open>
  Modelled from the spec: the loop executor resolves the items expression to an ordered
  sequence.
\<close>

definition resolve_items ::
  "TemplateLanguage \<Rightarrow> EngineConstants \<Rightarrow> LoopOnItemsActionSettings \<Rightarrow> RunContext
     \<Rightarrow> ErrorKind + json list" where
  "resolve_items lang constants settings ctx =
     (case resolve_template lang ctx constants (items settings) of
        Inl e \<Rightarrow> Inl e
      | Inr (JArr xs) \<Rightarrow> Inr xs
      | Inr _ \<Rightarrow> Inl ResolutionError)"

text \<open>
  Modelled from the spec: the executor's output or error is recorded into the Run Context
  under the action's name, after the entries already there.
\<close>

definition record_step :: "RunContext \<Rightarrow> string \<Rightarrow> StepOutput \<Rightarrow> RunContext" where
  "record_step ctx nm out = ctx \<lparr> steps := steps ctx @ [(nm, out)] \<rparr>"

text \<open>
  Modelled from the spec: the record of an action that produced an output.
\<close>

definition succeeded_output :: "json \<Rightarrow> StepOutput" where
  "succeeded_output v = \<lparr> step_output = v, step_status = STEP_SUCCEEDED, errorDetail = None \<rparr>"

text \<open>
  Modelled from the spec: the record of an action that errored.
\<close>

definition failed_output :: "ErrorKind \<Rightarrow> StepOutput" where
  "failed_output e = \<lparr> step_output = JNull, step_status = STEP_FAILED, errorDetail = Some e \<rparr>"

text \<open>
  Modelled from the spec: steps 3 to 5 of the interpreter for one executor result: record
  it, then continue, pause the run or fail it by the action's error handling policy.
\<close>

definition settle ::
  "string \<Rightarrow> ActionErrorHandlingOptions option \<Rightarrow> RunContext \<Rightarrow> AttemptResult
     \<Rightarrow> RunOutcome + RunContext" where
  "settle nm opts ctx r =
     (case r of
        Completed v \<Rightarrow> Inr (record_step ctx nm (succeeded_output v))
      | Suspended resumeKey \<Rightarrow> Inl (PAUSED nm resumeKey ctx)
      | Errored e \<Rightarrow>
          (if continue_enabled opts
           then Inr (record_step ctx nm (failed_output e))
           else Inl (FAILED nm e (record_step ctx nm (failed_output e)))))"

text \<open>
  Modelled from the spec: the output collected for one loop iteration: what the
  iteration-scoped context recorded beyond its parent.
\<close>

definition iteration_output :: "RunContext \<Rightarrow> RunContext \<Rightarrow> json" where
  "iteration_output parent child =
  JObj (map (\<lambda>(nm, out). (nm, step_output out)) (drop (length (steps parent)) (steps
  child)))"

text \<open>
  Modelled from the spec: the Flow Interpreter. It walks the chain from the given action: an
  invalid action fails the run; otherwise the executor of the action's kind runs, its result
  is recorded, and the walk continues with the designated continuation, ending as succeeded
  when no action is left. A loop runs its body once per item in an iteration-scoped context
  and fails fast. Single-step debug runs, cancellation and progress reports are not part of
  the model.
\<close>

fun execute ::
    "TemplateLanguage \<Rightarrow> 'c Executors \<Rightarrow> EngineConstants \<Rightarrow> 'c Action option \<Rightarrow> RunContext
       \<Rightarrow> RunOutcome"
  and execute_action ::
    "TemplateLanguage \<Rightarrow> 'c Executors \<Rightarrow> EngineConstants \<Rightarrow> 'c Action \<Rightarrow> RunContext
       \<Rightarrow> RunOutcome"
  and iterate ::
    "TemplateLanguage \<Rightarrow> 'c Executors \<Rightarrow> EngineConstants \<Rightarrow> 'c Action option \<Rightarrow> json list
       \<Rightarrow> nat \<Rightarrow> RunContext \<Rightarrow> RunOutcome + json list" where
  "execute lang ex constants None ctx = SUCCEEDED ctx"
| "execute lang ex constants (Some a) ctx = execute_action lang ex constants a ctx"
| "execute_action lang ex constants (CodeAction nm dn settings next v) ctx =
     (if \<not> v then FAILED nm InvalidAction ctx
      else (case settle nm (code_errorHandlingOptions settings) ctx
                   (fst (code_executor lang ex constants settings ctx)) of
              Inl outcome \<Rightarrow> outcome
            | Inr ctx' \<Rightarrow> execute lang ex constants next ctx'))"
| "execute_action lang ex constants (PieceAction nm dn settings next v) ctx =
     (if \<not> v then FAILED nm InvalidAction ctx
      else (case settle nm (piece_errorHandlingOptions settings) ctx
                   (fst (piece_executor lang ex constants settings ctx)) of
              Inl outcome \<Rightarrow> outcome
            | Inr ctx' \<Rightarrow> execute lang ex constants next ctx'))"
| "execute_action lang ex constants (BranchAction nm dn settings onSuccess onFailure v) ctx =
     (if \<not> v then FAILED nm InvalidAction ctx
      else (case branch_executor ex constants settings ctx of
              Inl e \<Rightarrow>
                (case settle nm (branch_errorHandlingOptions settings) ctx (Errored e) of
                   Inl outcome \<Rightarrow> outcome
                 | Inr ctx' \<Rightarrow> SUCCEEDED ctx')
            | Inr OnSuccess \<Rightarrow>
                execute lang ex constants onSuccess
                  (record_step ctx nm (succeeded_output (JBool True)))
            | Inr OnFailure \<Rightarrow>
                execute lang ex constants onFailure
                  (record_step ctx nm (succeeded_output (JBool False)))))"
| "execute_action lang ex constants (LoopOnItemsAction nm dn settings firstLoop next v) ctx =
     (if \<not> v then FAILED nm InvalidAction ctx
      else (case resolve_items lang constants settings ctx of
              Inl e \<Rightarrow>
                (case settle nm (loop_errorHandlingOptions settings) ctx (Errored e) of
                   Inl outcome \<Rightarrow> outcome
                 | Inr ctx' \<Rightarrow> execute lang ex constants next ctx')
            | Inr xs \<Rightarrow>
                (case iterate lang ex constants firstLoop xs 0 ctx of
                   Inr outs \<Rightarrow>
                     execute lang ex constants next
                       (record_step ctx nm (succeeded_output (JArr outs)))
                 | Inl (FAILED failing e child) \<Rightarrow>
                     (if continue_enabled (loop_errorHandlingOptions settings)
                      then execute lang ex constants next (record_step ctx nm (failed_output e))
                      else FAILED failing e (record_step ctx nm (failed_output e)))
                 | Inl outcome \<Rightarrow> outcome)))"
| "iterate lang ex constants body [] index ctx = Inr []"
| "iterate lang ex constants body (x # xs) index ctx =
     (case execute lang ex constants body (ctx \<lparr> loopItem := Some (x, index) \<rparr>) of
        SUCCEEDED child \<Rightarrow>
          (case iterate lang ex constants body xs (Suc index) ctx of
             Inl outcome \<Rightarrow> Inl outcome
           | Inr outs \<Rightarrow> Inr (iteration_output ctx child # outs))
      | outcome \<Rightarrow> Inl outcome)"

section \<open>The flow engine: notions the properties are stated with\<close>

text \<open>
  The references a template holds, and the references of a structured input under a
  template language.
\<close>

fun template_references :: "token list \<Rightarrow> reference list" where
  "template_references [] = []"
| "template_references (Text s # ts) = template_references ts"
| "template_references (Reference r # ts) = r # template_references ts"

fun value_references :: "TemplateLanguage \<Rightarrow> json \<Rightarrow> reference list"
  and values_references :: "TemplateLanguage \<Rightarrow> json list \<Rightarrow> reference list"
  and fields_references :: "TemplateLanguage \<Rightarrow> (string \<times> json) list \<Rightarrow> reference list" where
  "value_references lang (JStr s) = template_references (tokenize lang s)"
| "value_references lang (JArr vs) = values_references lang vs"
| "value_references lang (JObj kvs) = fields_references lang kvs"
| "value_references lang JNull = []"
| "value_references lang (JBool b) = []"
| "value_references lang (JNum n) = []"
| "values_references lang [] = []"
| "values_references lang (v # vs) = value_references lang v @ values_references lang vs"
| "fields_references lang [] = []"
| "fields_references lang ((k, v) # kvs) = value_references lang v @ fields_references lang kvs"

text \<open>
  A flow that is a linear chain of code actions, the names along the chain, and the
  condition that no action of the chain fails: each action, when its turn comes, is
  valid and its executor completes in the context its predecessors left.
\<close>

fun linear_code_chain :: "'c Action option \<Rightarrow> bool" where
  "linear_code_chain None = True"
| "linear_code_chain (Some (CodeAction nm dn cs nxt v)) = linear_code_chain nxt"
| "linear_code_chain (Some _) = False"

fun chain_names :: "'c Action option \<Rightarrow> string list" where
  "chain_names None = []"
| "chain_names (Some (CodeAction nm dn cs nxt v)) = nm # chain_names nxt"
| "chain_names (Some _) = []"

fun no_action_fails ::
  "TemplateLanguage \<Rightarrow> 'c Executors \<Rightarrow> EngineConstants \<Rightarrow> 'c Action option \<Rightarrow> RunContext \<Rightarrow> bool" where
  "no_action_fails lang ex constants None ctx = True"
| "no_action_fails lang ex constants (Some (CodeAction nm dn cs nxt v)) ctx =
     (v \<and> (case fst (code_executor lang ex constants cs ctx) of
             Completed out \<Rightarrow>
               no_action_fails lang ex constants nxt (record_step ctx nm (succeeded_output out))
           | _ \<Rightarrow> False))"
| "no_action_fails lang ex constants (Some _) ctx = False"

section \<open>A concrete engine for evaluation\<close>

text \<open>
  To run the interpreter on concrete flows: a template language in which a string that
  starts with \<^verbatim>\<open>$\<close> is a reference to the step named after it, executors that echo
  their input (a condition is its own truth value), executors that always fail, and the
  contexts, options, constants and flows the evaluations use.
\<close>

definition demo_lang :: TemplateLanguage where
  "demo_lang =
     \<lparr> tokenize = (\<lambda>s. case s of
                         [] \<Rightarrow> []
                       | c # nm \<Rightarrow> if c = CHR ''$'' then [Reference (StepRef nm [])] else [Text s]),
       stringify = (\<lambda>v. case v of JStr s \<Rightarrow> s | _ \<Rightarrow> ''[json]'') \<rparr>"

definition echo_executors :: "bool Executors" where
  "echo_executors =
     \<lparr> run_code = (\<lambda>src inp attempt. Inr (JObj inp)),
       evaluate_condition = (\<lambda>c ctx constants. Inr c),
       invoke = (\<lambda>piece act inp token urls attempt. ProviderOutput (JObj inp)) \<rparr>"


definition empty_context :: RunContext where
  "empty_context = \<lparr> steps = [], loopItem = None \<rparr>"







definition three_step_flow :: "bool Action" where
  "three_step_flow =
     buildCodeAction ''echo_step'' [(''key'', JStr ''hello'')]
       (Some (buildCodeAction ''runtime'' [(''previous'', JStr ''$echo_step'')]
          (Some (buildCodeAction ''echo_step_1'' [] None None)) None)) None"

section \<open>Properties of piece discovery\<close>

subsection \<open>Sorting\<close>

lemma mset_insort_by: "mset (insort_by cmp x ys) = add_mset x (mset ys)"
  by (induction ys) auto

lemma mset_sort_by: "mset (sort_by cmp xs) = mset xs"
  by (induction xs) (auto simp: sort_by_def mset_insort_by)

lemma set_insort_by: "set (insort_by cmp x ys) = insert x (set ys)"
  by (induction ys) auto

lemma sorted_insort_by:
  assumes total: "\<And>a b. cmp a b \<le> 0 \<or> cmp b a \<le> 0"
      and trans: "\<And>a b c. cmp a b \<le> 0 \<Longrightarrow> cmp b c \<le> 0 \<Longrightarrow> cmp a c \<le> 0"
      and srt: "sorted_wrt (\<lambda>a b. cmp a b \<le> 0) ys"
  shows "sorted_wrt (\<lambda>a b. cmp a b \<le> 0) (insort_by cmp x ys)"
  using srt
proof (induction ys)
  case Nil
  then show ?case by simp
next
  case (Cons y ys)
  show ?case
  proof (cases "cmp x y \<le> 0")
    case True
    with Cons.prems trans show ?thesis by auto
  next
    case False
    with total have "cmp y x \<le> 0" by blast
    with False Cons show ?thesis by (auto simp: set_insort_by)
  qed
qed

lemma sorted_sort_by:
  assumes total: "\<And>a b. cmp a b \<le> 0 \<or> cmp b a \<le> 0"
      and trans: "\<And>a b c. cmp a b \<le> 0 \<Longrightarrow> cmp b c \<le> 0 \<Longrightarrow> cmp a c \<le> 0"
  shows "sorted_wrt (\<lambda>a b. cmp a b \<le> 0) (sort_by cmp xs)"
proof (induction xs)
  case Nil
  then show ?case by (simp add: sort_by_def)
next
  case (Cons x xs)
  have "sort_by cmp (x # xs) = insort_by cmp x (sort_by cmp xs)"
    by (simp add: sort_by_def)
  with Cons sorted_insort_by [of cmp, OF total trans] show ?case by simp
qed


subsection \<open>Loading and validation\<close>

lemma loadPieceFromFolder_Some:
  "(loadPieceFromFolder env sv f = Some md) = (loadPiece env sv f = Inr md)"
  by (simp add: loadPieceFromFolder_def split: sum.splits)

lemma loadPieceFromFolder_None:
  "(loadPieceFromFolder env sv f = None) = (\<exists>e. loadPiece env sv f = Inl e)"
  by (simp add: loadPieceFromFolder_def split: sum.splits)

lemma loadPiece_Inr:
  assumes "loadPiece env sv f = Inr md"
  shows "\<exists>pj m pc. readPackageJson env f = Inr pj
           \<and> import_module env (join env [f, ''src'', ''index'']) = Inr m
           \<and> extractPieceFromModule env m (pkg_name pj) (pkg_version pj) = Inr pc
           \<and> md = assembleMetadata f pj pc
           \<and> validateMetadata sv md = Inr ()"
  using assms
  by (auto simp: loadPiece_def Let_def split: sum.splits)

lemma loadPiece_steps:
  assumes "readPackageJson env f = Inr pj"
      and "import_module env (join env [f, ''src'', ''index'']) = Inr m"
      and "extractPieceFromModule env m (pkg_name pj) (pkg_version pj) = Inr pc"
  shows "loadPiece env sv f =
           (case validateMetadata sv (assembleMetadata f pj pc) of
              Inl e \<Rightarrow> Inl e
            | Inr _ \<Rightarrow> Inr (assembleMetadata f pj pc))"
  using assms by (simp add: loadPiece_def Let_def)

lemma assembleMetadata_fields:
  "directoryPath (assembleMetadata f pj pc) = Some f"
  "minimumSupportedRelease (assembleMetadata f pj pc) =
     Some (case piece_minimumSupportedRelease pc of None \<Rightarrow> ''0.0.0'' | Some v \<Rightarrow> v)"
  "maximumSupportedRelease (assembleMetadata f pj pc) =
     Some (case piece_maximumSupportedRelease pc of None \<Rightarrow> ''99999.99999.9999'' | Some v \<Rightarrow> v)"
  "categories (assembleMetadata f pj pc) = categories (metadata pc)"
  "displayName (assembleMetadata f pj pc) = displayName (metadata pc)"
  "name (assembleMetadata f pj pc) = pkg_name pj"
  "version (assembleMetadata f pj pc) = pkg_version pj"
  by (simp_all add: assembleMetadata_def PieceMetadataBase.extend_def PieceMetadata.fields_def)

lemma loaded_list_eq:
  "map the (filter (\<lambda>p. p \<noteq> None) (map g xs)) =
     concat (map (\<lambda>p. case g p of None \<Rightarrow> [] | Some md \<Rightarrow> [md]) xs)"
  by (induction xs) (auto split: option.splits)

lemma set_sort_by: "set (sort_by cmp xs) = set xs"
  by (rule mset_eq_setD [OF mset_sort_by])

lemma set_loaded:
  "set (concat (map (\<lambda>p. case g p of None \<Rightarrow> [] | Some md \<Rightarrow> [md]) xs)) =
     {md. \<exists>p \<in> set xs. g p = Some md}"
  by (induction xs) (auto split: option.splits)

lemma set_findAllPieces:
  "set (findAllPieces env sv ops) =
     {md. \<exists>p \<in> set (findAllDistPaths env). loadPieceFromFolder env sv p = Some md}"
  by (simp only: findAllPieces_def Let_def set_sort_by loaded_list_eq set_loaded)

lemma findAllPieces_validated:
  assumes "md \<in> set (findAllPieces env sv ops)"
  shows "\<exists>p \<in> set (findAllDistPaths env). loadPiece env sv p = Inr md"
  using assms by (auto simp: set_findAllPieces loadPieceFromFolder_Some)

lemma validateSupportedRelease_Inr:
  "(validateSupportedRelease sv (Some mn) (Some mx) = Inr ()) =
     (truthy (valid sv mn) \<and> truthy (valid sv mx) \<and> gt sv mn mx = Inr False)"
  by (auto simp: validateSupportedRelease_def split: sum.splits bool.splits)

lemma validateMetadata_Inr:
  "(validateMetadata sv md = Inr ()) =
     (validateSupportedRelease sv (minimumSupportedRelease md) (maximumSupportedRelease md) = Inr ()
      \<and> validatePremiumPiece sv md = Inr ())"
  by (auto simp: validateMetadata_def split: sum.splits)

lemma not_Inr_unit: "(x \<noteq> Inr ()) = (\<exists>e. x = Inl e)"
  by (cases x) auto

subsection \<open>Evaluation on the concrete runtime\<close>

lemmas semver_numeric_simps =
  semver_numeric_def semver_compare_def parse_version_def parse_numeric_def is_digit_def

lemma demo_valid_defaults:
  "valid semver_numeric ''0.0.0'' = Some ''0.0.0''"
  "valid semver_numeric ''99999.99999.9999'' = Some ''99999.99999.9999''"
  "valid semver_numeric ''0.20.0'' = Some ''0.20.0''"
  "valid semver_numeric ''0.27.1'' = Some ''0.27.1''"
  "valid semver_numeric ''1.x'' = None"
  "valid semver_numeric ''2.0.0'' = Some ''2.0.0''"
  "valid semver_numeric ''1.0.0'' = Some ''1.0.0''"
  by (simp_all add: semver_numeric_simps)

lemma demo_gt:
  "gt semver_numeric ''0.0.0'' ''99999.99999.9999'' = Inr False"
  "gt semver_numeric ''0.20.0'' ''99999.99999.9999'' = Inr False"
  "gt semver_numeric ''0.27.1'' ''99999.99999.9999'' = Inr False"
  "lt semver_numeric ''0.27.1'' ''0.27.1'' = Inr False"
  "lt semver_numeric ''0.20.0'' ''0.27.1'' = Inr True"
  "gt semver_numeric ''2.0.0'' ''1.0.0'' = Inr True"
  by (simp_all add: semver_numeric_simps)

lemma demo_read:
  "f \<in> set (map fst demo_folders) \<Longrightarrow>
   readPackageJson demo_env f =
     Inr \<lparr> pkg_name = f @ ''/package.json'', pkg_version = ''0.0.1'', pkg_keywords = [] \<rparr>"
  by (auto simp: readPackageJson_def readJsonFile_def demo_env_def demo_folders_def)

lemma demo_import:
  "import_module demo_env (join demo_env [''/p/nocodb'', ''src'', ''index'']) = Inr nocodb"
  "import_module demo_env (join demo_env [''/p/bad'', ''src'', ''index'']) = Inr (demo_piece ''Bad'' (Some ''1.x'') None None)"
  "import_module demo_env (join demo_env [''/p/airtable'', ''src'', ''index'']) = Inr (demo_piece ''airtable'' None None None)"
  "import_module demo_env (join demo_env [''/p/reversed'', ''src'', ''index'']) = Inr (demo_piece ''Reversed'' (Some ''2.0.0'') (Some ''1.0.0'') None)"
  "import_module demo_env (join demo_env [''/ee/p/sso'', ''src'', ''index'']) = Inr (demo_piece ''Sso'' None None None)"
  "import_module demo_env (join demo_env [''/ee/p/audit'', ''src'', ''index'']) = Inr (demo_piece ''Audit'' (Some ''0.27.1'') None (Some [PREMIUM]))"
  by (simp_all add: demo_env_def demo_folders_def)

lemma demo_extract: "extractPieceFromModule demo_env m n v = Inr m"
  by (simp add: demo_env_def)

lemma demo_steps:
  assumes "f \<in> set (map fst demo_folders)"
      and "import_module demo_env (join demo_env [f, ''src'', ''index'']) = Inr pc"
  shows "loadPiece demo_env sv f =
           (case validateMetadata sv (demo_metadata f pc) of
              Inl e \<Rightarrow> Inl e
            | Inr _ \<Rightarrow> Inr (demo_metadata f pc))"
  unfolding demo_metadata_def
  by (rule loadPiece_steps [OF demo_read [OF assms(1)] assms(2)]) (simp add: demo_extract)

lemma demo_paths: "findAllDistPaths demo_env =
  [''/p/nocodb'', ''/p/bad'', ''/p/airtable'', ''/p/reversed'', ''/ee/p/sso'', ''/ee/p/audit'', ''/p/missing'']"
  by (simp add: demo_env_def demo_folders_def)

lemma demo_md_fields:
  "directoryPath (demo_metadata f pc) = Some f"
  "minimumSupportedRelease (demo_metadata f pc) =
     Some (case piece_minimumSupportedRelease pc of None \<Rightarrow> ''0.0.0'' | Some v \<Rightarrow> v)"
  "maximumSupportedRelease (demo_metadata f pc) =
     Some (case piece_maximumSupportedRelease pc of None \<Rightarrow> ''99999.99999.9999'' | Some v \<Rightarrow> v)"
  "categories (demo_metadata f pc) = categories (metadata pc)"
  "displayName (demo_metadata f pc) = displayName (metadata pc)"
  by (simp_all add: demo_metadata_def assembleMetadata_fields)

lemma demo_validate:
  "validateMetadata semver_numeric (demo_metadata ''/p/nocodb'' nocodb) = Inr ()"
  "validateMetadata semver_numeric (demo_metadata ''/p/airtable'' (demo_piece ''airtable'' None None None)) = Inr ()"
  "validateMetadata semver_numeric (demo_metadata ''/ee/p/audit'' (demo_piece ''Audit'' (Some ''0.27.1'') None (Some [PREMIUM]))) = Inr ()"
  "validateMetadata semver_numeric (demo_metadata ''/p/bad'' (demo_piece ''Bad'' (Some ''1.x'') None None)) =
     Inl (Error ''[validateSupportedRelease] \"minimumSupportedRelease\" should be a valid semver version'')"
  "validateMetadata semver_numeric (demo_metadata ''/p/reversed'' (demo_piece ''Reversed'' (Some ''2.0.0'') (Some ''1.0.0'') None)) =
     Inl (Error ''[validateSupportedRelease] \"minimumSupportedRelease\" should be less than \"maximumSupportedRelease\"'')"
  "validateMetadata semver_numeric (demo_metadata ''/ee/p/sso'' (demo_piece ''Sso'' None None None)) =
     Inl (Error ''[validatePremiumPiece] Premium pieces must be in the 'premium' category'')"
  by (simp_all add: validateMetadata_def validateSupportedRelease_def validatePremiumPiece_def
        demo_md_fields nocodb_def demo_piece_def demo_valid_defaults demo_gt)

lemma demo_load:
  "loadPieceFromFolder demo_env semver_numeric ''/p/nocodb'' = Some (demo_metadata ''/p/nocodb'' nocodb)"
  "loadPieceFromFolder demo_env semver_numeric ''/p/airtable'' =
     Some (demo_metadata ''/p/airtable'' (demo_piece ''airtable'' None None None))"
  "loadPieceFromFolder demo_env semver_numeric ''/ee/p/audit'' =
     Some (demo_metadata ''/ee/p/audit'' (demo_piece ''Audit'' (Some ''0.27.1'') None (Some [PREMIUM])))"
  "loadPieceFromFolder demo_env semver_numeric ''/p/bad'' = None"
  "loadPieceFromFolder demo_env semver_numeric ''/p/reversed'' = None"
  "loadPieceFromFolder demo_env semver_numeric ''/ee/p/sso'' = None"
  "loadPieceFromFolder demo_env semver_numeric ''/p/missing'' = None"
  by (simp_all add: loadPieceFromFolder_def demo_steps demo_import demo_validate demo_folders_def,
      simp add: loadPiece_def readPackageJson_def readJsonFile_def demo_env_def demo_folders_def)

lemma demo_upper:
  "toUpperCase ascii_ops ''airtable'' = ''AIRTABLE''"
  "toUpperCase ascii_ops ''NocoDB'' = ''NOCODB''"
  "toUpperCase ascii_ops ''Audit'' = ''AUDIT''"
  by (simp_all add: ascii_ops_def ascii_upper_def)

lemma demo_findAllPieces:
  "findAllPieces demo_env semver_numeric ascii_ops =
     [demo_metadata ''/p/airtable'' (demo_piece ''airtable'' None None None),
      demo_metadata ''/ee/p/audit'' (demo_piece ''Audit'' (Some ''0.27.1'') None (Some [PREMIUM])),
      demo_metadata ''/p/nocodb'' nocodb]"
  by (simp add: findAllPieces_def demo_paths demo_load sort_by_def byDisplayNameIgnoreCase_def
        demo_md_fields demo_piece_def nocodb_def demo_upper)
     (simp add: ascii_ops_def)

lemma ascii_ops_total: "localeCompare ascii_ops a b \<le> 0 \<or> localeCompare ascii_ops b a \<le> 0"
  by (auto simp: ascii_ops_def)

lemma ascii_ops_trans:
  "localeCompare ascii_ops a b \<le> 0 \<Longrightarrow> localeCompare ascii_ops b c \<le> 0
     \<Longrightarrow> localeCompare ascii_ops a c \<le> 0"
  by (auto simp: ascii_ops_def split: if_splits)

subsection \<open>The listing\<close>

text \<open>
  C8.  \<^verbatim>\<open>findAllPieces\<close> returns exactly the metadata of the folders whose piece loads
  and validates, each folder in \<^verbatim>\<open>findAllDistPaths\<close> contributing one entry or none;
  the result is in ascending order of the upper-cased display names under
  \<^verbatim>\<open>localeCompare\<close>, provided \<^verbatim>\<open>localeCompare\<close> is a consistent comparison (total and
  transitive); and a folder whose load or validation throws makes
  \<^verbatim>\<open>loadPieceFromFolder\<close> return null, which the listing filters out.
\<close>

theorem findAllPieces_loaded_sorted:
  assumes total: "\<And>a b. localeCompare ops a b \<le> 0 \<or> localeCompare ops b a \<le> 0"
      and trans: "\<And>a b c. localeCompare ops a b \<le> 0 \<Longrightarrow> localeCompare ops b c \<le> 0
                    \<Longrightarrow> localeCompare ops a c \<le> 0"
  shows "mset (findAllPieces env sv ops) =
           mset (concat (map (\<lambda>p. case loadPieceFromFolder env sv p of
                                     None \<Rightarrow> [] | Some md \<Rightarrow> [md])
                          (findAllDistPaths env)))
         \<and> sorted_wrt (\<lambda>a b. localeCompare ops (toUpperCase ops (displayName a))
                                            (toUpperCase ops (displayName b)) \<le> 0)
             (findAllPieces env sv ops)
         \<and> (\<forall>p. (\<exists>e. loadPiece env sv p = Inl e) \<longrightarrow> loadPieceFromFolder env sv p = None)"
proof -
  let ?cmp = "byDisplayNameIgnoreCase ops"
  have cmp: "?cmp = (\<lambda>a b. localeCompare ops (toUpperCase ops (displayName a))
                                            (toUpperCase ops (displayName b)))"
    by (intro ext) (simp add: byDisplayNameIgnoreCase_def Let_def)
  have t: "\<And>a b. ?cmp a b \<le> 0 \<or> ?cmp b a \<le> 0"
    unfolding cmp using total by blast
  have tr: "\<And>a b c. ?cmp a b \<le> 0 \<Longrightarrow> ?cmp b c \<le> 0 \<Longrightarrow> ?cmp a c \<le> 0"
    unfolding cmp using trans by blast
  have "sorted_wrt (\<lambda>a b. ?cmp a b \<le> 0) (findAllPieces env sv ops)"
    unfolding findAllPieces_def Let_def by (rule sorted_sort_by [OF t tr])
  then have s: "sorted_wrt (\<lambda>a b. localeCompare ops (toUpperCase ops (displayName a))
                                            (toUpperCase ops (displayName b)) \<le> 0)
             (findAllPieces env sv ops)"
    unfolding cmp .
  have m: "mset (findAllPieces env sv ops) =
           mset (concat (map (\<lambda>p. case loadPieceFromFolder env sv p of
                                     None \<Rightarrow> [] | Some md \<Rightarrow> [md])
                          (findAllDistPaths env)))"
    by (simp only: findAllPieces_def Let_def mset_sort_by loaded_list_eq)
  have n: "\<forall>p. (\<exists>e. loadPiece env sv p = Inl e) \<longrightarrow> loadPieceFromFolder env sv p = None"
    by (simp add: loadPieceFromFolder_None)
  from m s n show ?thesis by blast
qed

theorem findAllPieces_loaded_sorted_witness:
  "map displayName (findAllPieces demo_env semver_numeric ascii_ops) = [''airtable'', ''Audit'', ''NocoDB'']
   \<and> mset (findAllPieces demo_env semver_numeric ascii_ops) =
       mset (concat (map (\<lambda>p. case loadPieceFromFolder demo_env semver_numeric p of
                                 None \<Rightarrow> [] | Some md \<Rightarrow> [md])
                      (findAllDistPaths demo_env)))
   \<and> sorted_wrt (\<lambda>a b. localeCompare ascii_ops (toUpperCase ascii_ops (displayName a))
                                            (toUpperCase ascii_ops (displayName b)) \<le> 0)
       (findAllPieces demo_env semver_numeric ascii_ops)
   \<and> (\<exists>e. loadPiece demo_env semver_numeric ''/p/missing'' = Inl e)
   \<and> loadPieceFromFolder demo_env semver_numeric ''/p/missing'' = None"
proof -
  have th: "mset (findAllPieces demo_env semver_numeric ascii_ops) =
       mset (concat (map (\<lambda>p. case loadPieceFromFolder demo_env semver_numeric p of
                                 None \<Rightarrow> [] | Some md \<Rightarrow> [md])
                      (findAllDistPaths demo_env)))
   \<and> sorted_wrt (\<lambda>a b. localeCompare ascii_ops (toUpperCase ascii_ops (displayName a))
                                            (toUpperCase ascii_ops (displayName b)) \<le> 0)
       (findAllPieces demo_env semver_numeric ascii_ops)
   \<and> (\<forall>p. (\<exists>e. loadPiece demo_env semver_numeric p = Inl e) \<longrightarrow>
             loadPieceFromFolder demo_env semver_numeric p = None)"
    by (rule findAllPieces_loaded_sorted) (rule ascii_ops_total, erule (1) ascii_ops_trans)
  have n: "map displayName (findAllPieces demo_env semver_numeric ascii_ops) =
             [''airtable'', ''Audit'', ''NocoDB'']"
    by (simp add: demo_findAllPieces demo_md_fields demo_piece_def nocodb_def)
  have e: "\<exists>e. loadPiece demo_env semver_numeric ''/p/missing'' = Inl e"
    by (simp add: loadPiece_def readPackageJson_def readJsonFile_def demo_env_def demo_folders_def)
  from th n e show ?thesis by blast
qed

subsection \<open>Supported releases\<close>

text \<open>
  C9.  For a folder whose manifest, module and piece are read successfully: a loaded
  piece has minimum supported release \<^verbatim>\<open>0.0.0\<close> when the piece declares none and maximum
  supported release \<^verbatim>\<open>99999.99999.9999\<close> when it declares none, and otherwise the declared
  bounds; and when either bound is not a valid semver version, or the minimum is greater
  than the maximum, metadata validation throws, \<^verbatim>\<open>loadPieceFromFolder\<close> returns null and
  no entry of the listing comes from that folder.
\<close>

theorem loadPieceFromFolder_supported_release:
  assumes rd: "readPackageJson env folderPath = Inr pkgJson"
      and im: "import_module env (join env [folderPath, ''src'', ''index'']) = Inr module"
      and ex: "extractPieceFromModule env module (pkg_name pkgJson) (pkg_version pkgJson)
                 = Inr piece"
      and mn: "mn = (case piece_minimumSupportedRelease piece of None \<Rightarrow> ''0.0.0'' | Some v \<Rightarrow> v)"
      and mx: "mx = (case piece_maximumSupportedRelease piece of
                       None \<Rightarrow> ''99999.99999.9999'' | Some v \<Rightarrow> v)"
  shows "(\<forall>md. loadPieceFromFolder env sv folderPath = Some md \<longrightarrow>
               minimumSupportedRelease md = Some mn \<and> maximumSupportedRelease md = Some mx)
       \<and> (\<not> truthy (valid sv mn) \<or> \<not> truthy (valid sv mx) \<or> gt sv mn mx = Inr True \<longrightarrow>
               (\<exists>e. validateMetadata sv (assembleMetadata folderPath pkgJson piece) = Inl e)
             \<and> loadPieceFromFolder env sv folderPath = None
             \<and> (\<forall>md \<in> set (findAllPieces env sv ops). directoryPath md \<noteq> Some folderPath))"
proof -
  let ?md = "assembleMetadata folderPath pkgJson piece"
  have mnf: "minimumSupportedRelease ?md = Some mn" and mxf: "maximumSupportedRelease ?md = Some mx"
    by (simp_all add: assembleMetadata_fields mn mx)
  have steps: "loadPiece env sv folderPath =
                 (case validateMetadata sv ?md of Inl e \<Rightarrow> Inl e | Inr _ \<Rightarrow> Inr ?md)"
    by (rule loadPiece_steps [OF rd im ex])
  have a: "\<forall>md. loadPieceFromFolder env sv folderPath = Some md \<longrightarrow>
               minimumSupportedRelease md = Some mn \<and> maximumSupportedRelease md = Some mx"
  proof (intro allI impI)
    fix md assume "loadPieceFromFolder env sv folderPath = Some md"
    then have "loadPiece env sv folderPath = Inr md"
      by (simp add: loadPieceFromFolder_Some)
    with steps have "md = ?md" by (simp split: sum.splits)
    with mnf mxf show "minimumSupportedRelease md = Some mn \<and> maximumSupportedRelease md = Some mx"
      by simp
  qed
  have b: "(\<exists>e. validateMetadata sv ?md = Inl e)
             \<and> loadPieceFromFolder env sv folderPath = None
             \<and> (\<forall>md \<in> set (findAllPieces env sv ops). directoryPath md \<noteq> Some folderPath)"
    if bad: "\<not> truthy (valid sv mn) \<or> \<not> truthy (valid sv mx) \<or> gt sv mn mx = Inr True"
  proof -
    from bad have "validateSupportedRelease sv (Some mn) (Some mx) \<noteq> Inr ()"
      by (auto simp: validateSupportedRelease_Inr)
    then have "validateMetadata sv ?md \<noteq> Inr ()"
      by (simp add: validateMetadata_Inr mnf mxf)
    then have v: "\<exists>e. validateMetadata sv ?md = Inl e"
      by (simp add: not_Inr_unit)
    with steps have l: "loadPieceFromFolder env sv folderPath = None"
      by (auto simp: loadPieceFromFolder_None)
    have "directoryPath md \<noteq> Some folderPath" if "md \<in> set (findAllPieces env sv ops)" for md
    proof
      assume d: "directoryPath md = Some folderPath"
      from that obtain p where p: "loadPiece env sv p = Inr md"
        using findAllPieces_validated by blast
      from loadPiece_Inr [OF p] have "directoryPath md = Some p"
        by (auto simp: assembleMetadata_fields)
      with d have "p = folderPath" by simp
      with p l show False by (simp add: loadPieceFromFolder_None)
    qed
    with v l show ?thesis by blast
  qed
  from a b show ?thesis by blast
qed

theorem loadPieceFromFolder_supported_release_witness:
  "piece_minimumSupportedRelease (demo_piece ''airtable'' None None None) = None
   \<and> piece_maximumSupportedRelease (demo_piece ''airtable'' None None None) = None
   \<and> loadPieceFromFolder demo_env semver_numeric ''/p/airtable'' =
       Some (demo_metadata ''/p/airtable'' (demo_piece ''airtable'' None None None))
   \<and> minimumSupportedRelease (demo_metadata ''/p/airtable'' (demo_piece ''airtable'' None None None))
       = Some ''0.0.0''
   \<and> maximumSupportedRelease (demo_metadata ''/p/airtable'' (demo_piece ''airtable'' None None None))
       = Some ''99999.99999.9999''
   \<and> valid semver_numeric ''1.x'' = None
   \<and> loadPieceFromFolder demo_env semver_numeric ''/p/bad'' = None
   \<and> gt semver_numeric ''2.0.0'' ''1.0.0'' = Inr True
   \<and> loadPieceFromFolder demo_env semver_numeric ''/p/reversed'' = None"
proof -
  let ?pj = "\<lambda>f. \<lparr> pkg_name = f @ ''/package.json'', pkg_version = ''0.0.1'', pkg_keywords = [] \<rparr>"
  have rd: "readPackageJson demo_env f = Inr (?pj f)" if "f \<in> set (map fst demo_folders)" for f
    using that by (rule demo_read)
  have a: "minimumSupportedRelease (demo_metadata ''/p/airtable'' (demo_piece ''airtable'' None None None))
             = Some ''0.0.0''
         \<and> maximumSupportedRelease (demo_metadata ''/p/airtable'' (demo_piece ''airtable'' None None None))
             = Some ''99999.99999.9999''"
    using loadPieceFromFolder_supported_release
      [of demo_env "''/p/airtable''" "?pj ''/p/airtable''" "demo_piece ''airtable'' None None None"
          "demo_piece ''airtable'' None None None" "''0.0.0''" "''99999.99999.9999''"
          semver_numeric ascii_ops,
       OF rd demo_import(3) demo_extract]
    by (simp add: demo_folders_def demo_piece_def demo_load)
  have b: "loadPieceFromFolder demo_env semver_numeric ''/p/bad'' = None"
    using loadPieceFromFolder_supported_release
      [of demo_env "''/p/bad''" "?pj ''/p/bad''" "demo_piece ''Bad'' (Some ''1.x'') None None"
          "demo_piece ''Bad'' (Some ''1.x'') None None" "''1.x''" "''99999.99999.9999''"
          semver_numeric ascii_ops,
       OF rd demo_import(2) demo_extract]
    by (simp add: demo_folders_def demo_piece_def demo_valid_defaults)
  have c: "loadPieceFromFolder demo_env semver_numeric ''/p/reversed'' = None"
    using loadPieceFromFolder_supported_release
      [of demo_env "''/p/reversed''" "?pj ''/p/reversed''"
          "demo_piece ''Reversed'' (Some ''2.0.0'') (Some ''1.0.0'') None"
          "demo_piece ''Reversed'' (Some ''2.0.0'') (Some ''1.0.0'') None" "''2.0.0''" "''1.0.0''"
          semver_numeric ascii_ops,
       OF rd demo_import(4) demo_extract]
    by (simp add: demo_folders_def demo_piece_def demo_gt)
  from a b c show ?thesis
    by (simp add: demo_load demo_valid_defaults demo_gt) (simp add: demo_piece_def)
qed

subsection \<open>Premium pieces\<close>

text \<open>
  C10.  \<^verbatim>\<open>validatePremiumPiece\<close> accepts a piece exactly when both rules hold: a
  directory path containing \<^verbatim>\<open>/ee/\<close> implies the \<^verbatim>\<open>PREMIUM\<close> category, and the
  \<^verbatim>\<open>PREMIUM\<close> category implies a non-empty minimum supported release that is not lower
  than \<^verbatim>\<open>0.27.1\<close>.  A piece that violates a rule makes \<^verbatim>\<open>validatePremiumPiece\<close> and
  \<^verbatim>\<open>validateMetadata\<close> throw, and every piece of the listing satisfies both rules.
\<close>

theorem validatePremiumPiece_rules:
  "((validatePremiumPiece sv piece = Inr ()) =
      (((\<exists>d. directoryPath piece = Some d \<and> str_includes d ''/ee/'') \<longrightarrow>
          PREMIUM \<in> set (case categories piece of None \<Rightarrow> [] | Some cs \<Rightarrow> cs))
       \<and> (PREMIUM \<in> set (case categories piece of None \<Rightarrow> [] | Some cs \<Rightarrow> cs) \<longrightarrow>
            (\<exists>mn. minimumSupportedRelease piece = Some mn \<and> mn \<noteq> []
                  \<and> lt sv mn ''0.27.1'' = Inr False))))
   \<and> (validatePremiumPiece sv piece \<noteq> Inr () \<longrightarrow>
         (\<exists>e. validatePremiumPiece sv piece = Inl e) \<and> (\<exists>e. validateMetadata sv piece = Inl e))
   \<and> (\<forall>md \<in> set (findAllPieces env sv ops). validatePremiumPiece sv md = Inr ())"
proof -
  have a: "(validatePremiumPiece sv piece = Inr ()) =
      (((\<exists>d. directoryPath piece = Some d \<and> str_includes d ''/ee/'') \<longrightarrow>
          PREMIUM \<in> set (case categories piece of None \<Rightarrow> [] | Some cs \<Rightarrow> cs))
       \<and> (PREMIUM \<in> set (case categories piece of None \<Rightarrow> [] | Some cs \<Rightarrow> cs) \<longrightarrow>
            (\<exists>mn. minimumSupportedRelease piece = Some mn \<and> mn \<noteq> []
                  \<and> lt sv mn ''0.27.1'' = Inr False)))"
    by (auto simp: validatePremiumPiece_def Let_def split: option.splits sum.splits bool.splits)
  have b: "(\<exists>e. validatePremiumPiece sv piece = Inl e) \<and> (\<exists>e. validateMetadata sv piece = Inl e)"
    if "validatePremiumPiece sv piece \<noteq> Inr ()"
    using that by (simp add: not_Inr_unit [symmetric] validateMetadata_Inr)
  have c: "validatePremiumPiece sv md = Inr ()" if "md \<in> set (findAllPieces env sv ops)" for md
  proof -
    from that obtain p where "loadPiece env sv p = Inr md"
      using findAllPieces_validated by blast
    from loadPiece_Inr [OF this] show ?thesis
      by (auto simp: validateMetadata_Inr)
  qed
  from a b c show ?thesis by blast
qed

theorem validatePremiumPiece_rules_witness:
  "str_includes ''/ee/p/sso'' ''/ee/''
   \<and> directoryPath (demo_metadata ''/ee/p/sso'' (demo_piece ''Sso'' None None None)) = Some ''/ee/p/sso''
   \<and> categories (demo_metadata ''/ee/p/sso'' (demo_piece ''Sso'' None None None)) = None
   \<and> (\<exists>e. validatePremiumPiece semver_numeric
             (demo_metadata ''/ee/p/sso'' (demo_piece ''Sso'' None None None)) = Inl e)
   \<and> (\<exists>e. validateMetadata semver_numeric
             (demo_metadata ''/ee/p/sso'' (demo_piece ''Sso'' None None None)) = Inl e)
   \<and> demo_metadata ''/ee/p/audit'' (demo_piece ''Audit'' (Some ''0.27.1'') None (Some [PREMIUM]))
       \<in> set (findAllPieces demo_env semver_numeric ascii_ops)
   \<and> validatePremiumPiece semver_numeric
       (demo_metadata ''/ee/p/audit'' (demo_piece ''Audit'' (Some ''0.27.1'') None (Some [PREMIUM])))
       = Inr ()
   \<and> categories (demo_metadata ''/ee/p/audit'' (demo_piece ''Audit'' (Some ''0.27.1'') None (Some [PREMIUM])))
       = Some [PREMIUM]
   \<and> lt semver_numeric ''0.27.1'' ''0.27.1'' = Inr False"
proof -
  let ?sso = "demo_metadata ''/ee/p/sso'' (demo_piece ''Sso'' None None None)"
  let ?audit = "demo_metadata ''/ee/p/audit'' (demo_piece ''Audit'' (Some ''0.27.1'') None (Some [PREMIUM]))"
  have i: "str_includes ''/ee/p/sso'' ''/ee/''" by simp
  have f: "directoryPath ?sso = Some ''/ee/p/sso''" "categories ?sso = None"
          "categories ?audit = Some [PREMIUM]"
    by (simp_all add: demo_md_fields demo_piece_def)
  have m: "?audit \<in> set (findAllPieces demo_env semver_numeric ascii_ops)"
    by (simp add: demo_findAllPieces)
  have s: "(\<exists>e. validatePremiumPiece semver_numeric ?sso = Inl e)
         \<and> (\<exists>e. validateMetadata semver_numeric ?sso = Inl e)"
    using validatePremiumPiece_rules [of semver_numeric ?sso demo_env ascii_ops] i f
    by simp
  have a: "validatePremiumPiece semver_numeric ?audit = Inr ()"
    using validatePremiumPiece_rules [of semver_numeric ?audit demo_env ascii_ops] m
    by blast
  from i f m s a show ?thesis by (simp add: demo_gt)
qed

section \<open>Properties of the flow engine\<close>

subsection \<open>Engine constants\<close>


subsection \<open>Retry policy\<close>









subsection \<open>Variable resolution\<close>

lemma get_path_error: "get_path v path = Inl e \<Longrightarrow> e = ResolutionError"
  by (induction v path rule: get_path.induct) (auto split: option.splits)

lemma resolve_reference_error: "resolve_reference ctx constants r = Inl e \<Longrightarrow> e = ResolutionError"
  by (cases r) (auto split: option.splits dest: get_path_error)

lemma resolve_tokens_error: "resolve_tokens ctx constants ts = Inl e \<Longrightarrow> e = ResolutionError"
  by (induction ctx constants ts rule: resolve_tokens.induct)
     (auto split: sum.splits dest: resolve_reference_error)

lemma resolve_template_error:
  "resolve_template lang ctx constants s = Inl e \<Longrightarrow> e = ResolutionError"
  by (auto simp: resolve_template_def split: sum.splits list.splits dest: resolve_tokens_error)

lemma resolve_value_error:
  "resolve_value lang ctx constants v = Inl e \<Longrightarrow> e = ResolutionError"
  "resolve_values lang ctx constants vs = Inl e \<Longrightarrow> e = ResolutionError"
  "resolve_fields lang ctx constants kvs = Inl e \<Longrightarrow> e = ResolutionError"
  by (induction lang ctx constants v and lang ctx constants vs and lang ctx constants kvs
        rule: resolve_value_resolve_values_resolve_fields.induct)
     (auto split: sum.splits dest: resolve_template_error)

lemma absent_tokens:
  assumes "StepRef nm path \<in> set (template_references ts)" and "map_of (steps ctx) nm = None"
  shows "\<exists>e. resolve_tokens ctx constants ts = Inl e"
  using assms
  by (induction ctx constants ts rule: resolve_tokens.induct) (auto split: sum.splits)

lemma absent_template:
  assumes "StepRef nm path \<in> set (template_references (tokenize lang s))"
      and "map_of (steps ctx) nm = None"
  shows "\<exists>e. resolve_template lang ctx constants s = Inl e"
proof -
  from absent_tokens [OF assms] obtain e
    where "resolve_tokens ctx constants (tokenize lang s) = Inl e" by blast
  then show ?thesis by (simp add: resolve_template_def)
qed

lemma absent_value:
  "StepRef nm path \<in> set (value_references lang v) \<Longrightarrow> map_of (steps ctx) nm = None
     \<Longrightarrow> \<exists>e. resolve_value lang ctx constants v = Inl e"
  "StepRef nm path \<in> set (values_references lang vs) \<Longrightarrow> map_of (steps ctx) nm = None
     \<Longrightarrow> \<exists>e. resolve_values lang ctx constants vs = Inl e"
  "StepRef nm path \<in> set (fields_references lang kvs) \<Longrightarrow> map_of (steps ctx) nm = None
     \<Longrightarrow> \<exists>e. resolve_fields lang ctx constants kvs = Inl e"
  by (induction lang ctx constants v and lang ctx constants vs and lang ctx constants kvs
        rule: resolve_value_resolve_values_resolve_fields.induct)
     (auto split: sum.splits dest: absent_template)

text \<open>
  C3.  When an action name is not in the Run Context, every template and every structured
  input that holds a reference to it fails to resolve, with \<open>ResolutionError\<close>, and yields
  no value; a code or piece action with such an input errors with \<open>ResolutionError\<close>, and,
  unless it is configured with continue-on-failure, fails the run with that error.
\<close>

theorem absent_step_reference_fails:
  assumes absent: "nm \<notin> fst ` set (steps ctx)"
  shows "(StepRef nm path \<in> set (template_references (tokenize lang s)) \<longrightarrow>
            resolve_template lang ctx constants s = Inl ResolutionError)
       \<and> (StepRef nm path \<in> set (value_references lang v) \<longrightarrow>
            resolve_value lang ctx constants v = Inl ResolutionError
          \<and> (\<forall>r. resolve_value lang ctx constants v \<noteq> Inr r))
       \<and> (StepRef nm path \<in> set (fields_references lang (code_input cs)) \<longrightarrow>
            fst (code_executor lang ex constants cs ctx) = Errored ResolutionError
          \<and> (\<not> continue_enabled (code_errorHandlingOptions cs) \<longrightarrow>
               execute_action lang ex constants (CodeAction step dn cs successor True) ctx
                 = FAILED step ResolutionError
                     (record_step ctx step (failed_output ResolutionError))))
       \<and> (StepRef nm path \<in> set (fields_references lang (piece_input ps)) \<longrightarrow>
            fst (piece_executor lang ex constants ps ctx) = Errored ResolutionError
          \<and> (\<not> continue_enabled (piece_errorHandlingOptions ps) \<longrightarrow>
               execute_action lang ex constants (PieceAction step dn ps successor True) ctx
                 = FAILED step ResolutionError
                     (record_step ctx step (failed_output ResolutionError))))"
proof -
  from absent have none: "map_of (steps ctx) nm = None"
    by (simp add: map_of_eq_None_iff)
  have t: "resolve_template lang ctx constants s = Inl ResolutionError"
    if "StepRef nm path \<in> set (template_references (tokenize lang s))"
    using absent_template [OF that none] resolve_template_error by blast
  have a: "resolve_value lang ctx constants v = Inl ResolutionError
          \<and> (\<forall>r. resolve_value lang ctx constants v \<noteq> Inr r)"
    if "StepRef nm path \<in> set (value_references lang v)"
  proof -
    from absent_value(1) [OF that none] obtain e
      where "resolve_value lang ctx constants v = Inl e" by blast
    with resolve_value_error(1) have "resolve_value lang ctx constants v = Inl ResolutionError"
      by blast
    then show ?thesis by simp
  qed
  have f: "resolve_fields lang ctx constants kvs = Inl ResolutionError"
    if "StepRef nm path \<in> set (fields_references lang kvs)" for kvs
    using absent_value(3) [OF that none] resolve_value_error(3) by blast
  have c: "fst (code_executor lang ex constants cs ctx) = Errored ResolutionError
          \<and> (\<not> continue_enabled (code_errorHandlingOptions cs) \<longrightarrow>
               execute_action lang ex constants (CodeAction step dn cs successor True) ctx
                 = FAILED step ResolutionError
                     (record_step ctx step (failed_output ResolutionError)))"
    if "StepRef nm path \<in> set (fields_references lang (code_input cs))"
    using f [OF that] by (simp add: code_executor_def settle_def)
  have p: "fst (piece_executor lang ex constants ps ctx) = Errored ResolutionError
          \<and> (\<not> continue_enabled (piece_errorHandlingOptions ps) \<longrightarrow>
               execute_action lang ex constants (PieceAction step dn ps successor True) ctx
                 = FAILED step ResolutionError
                     (record_step ctx step (failed_output ResolutionError)))"
    if "StepRef nm path \<in> set (fields_references lang (piece_input ps))"
    using f [OF that] by (simp add: piece_executor_def settle_def)
  from t a c p show ?thesis by blast
qed

theorem absent_step_reference_fails_witness:
  "''missing'' \<notin> fst ` set (steps empty_context)
   \<and> StepRef ''missing'' [] \<in> set (value_references demo_lang (JStr ''$missing''))
   \<and> resolve_value demo_lang empty_context (generateMockEngineConstants None) (JStr ''$missing'')
       = Inl ResolutionError
   \<and> StepRef ''missing'' []
       \<in> set (fields_references demo_lang [(''key'', JArr [JNum 1, JStr ''$missing''])])
   \<and> execute_action demo_lang echo_executors (generateMockEngineConstants None)
        (buildCodeAction ''echo_step'' [(''key'', JArr [JNum 1, JStr ''$missing''])] None None)
        empty_context
       = FAILED ''echo_step'' ResolutionError
           (record_step empty_context ''echo_step'' (failed_output ResolutionError))"
proof -
  let ?cs = "\<lparr> code_input = [(''key'', JArr [JNum 1, JStr ''$missing''])],
               sourceCode = \<lparr> packageJson = [], code = [] \<rparr>,
               code_errorHandlingOptions = None \<rparr>"
  have a: "''missing'' \<notin> fst ` set (steps empty_context)"
    by (simp add: empty_context_def)
  have r: "StepRef ''missing'' [] \<in> set (value_references demo_lang (JStr ''$missing''))"
    by (simp add: demo_lang_def)
  have q: "StepRef ''missing'' []
       \<in> set (fields_references demo_lang [(''key'', JArr [JNum 1, JStr ''$missing''])])"
    by (simp add: demo_lang_def)
  have q': "StepRef ''missing'' [] \<in> set (fields_references demo_lang (code_input ?cs))"
    by (simp add: demo_lang_def)
  have n: "\<not> continue_enabled (code_errorHandlingOptions ?cs)"
    by (simp add: continue_enabled_def)
  note th = absent_step_reference_fails [OF a, where path = "[]" and lang = demo_lang
      and constants = "generateMockEngineConstants None" and v = "JStr ''$missing''"
      and cs = "?cs" and ex = echo_executors and step = "''echo_step''"
      and dn = "''Your Action Name''" and successor = None]
  note v = th [THEN conjunct2, THEN conjunct1, THEN mp, OF r, THEN conjunct1]
  note e = th [THEN conjunct2, THEN conjunct2, THEN conjunct1, THEN mp, OF q', THEN conjunct2,
      THEN mp, OF n]
  from a r v q e show ?thesis
    by (simp add: buildCodeAction_def)
qed

subsection \<open>Branches\<close>

lemma group_satisfied_all:
  assumes "\<forall>c \<in> set g. \<exists>b. evaluate_condition ex c ctx constants = Inr b"
  shows "group_satisfied ex ctx constants g =
           Inr (\<forall>c \<in> set g. evaluate_condition ex c ctx constants = Inr True)"
  using assms
proof (induction g)
  case Nil
  then show ?case by simp
next
  case (Cons c g)
  then obtain b where b: "evaluate_condition ex c ctx constants = Inr b" by auto
  from Cons have ih: "group_satisfied ex ctx constants g =
           Inr (\<forall>c \<in> set g. evaluate_condition ex c ctx constants = Inr True)" by simp
  from b ih show ?case by (cases b) simp_all
qed

lemma any_group_satisfied_any:
  assumes "\<forall>g \<in> set gs. \<forall>c \<in> set g. \<exists>b. evaluate_condition ex c ctx constants = Inr b"
  shows "any_group_satisfied ex ctx constants gs =
           Inr (\<exists>g \<in> set gs. \<forall>c \<in> set g. evaluate_condition ex c ctx constants = Inr True)"
  using assms
proof (induction gs)
  case Nil
  then show ?case by simp
next
  case (Cons g gs)
  then have g: "group_satisfied ex ctx constants g =
           Inr (\<forall>c \<in> set g. evaluate_condition ex c ctx constants = Inr True)"
    by (simp add: group_satisfied_all)
  from Cons have ih: "any_group_satisfied ex ctx constants gs =
           Inr (\<exists>g \<in> set gs. \<forall>c \<in> set g. evaluate_condition ex c ctx constants = Inr True)"
    by simp
  show ?case
  proof (cases "\<forall>c \<in> set g. evaluate_condition ex c ctx constants = Inr True")
    case True
    with g show ?thesis by simp
  next
    case False
    with g ih show ?thesis by auto
  qed
qed

lemmas run_simps =
  code_executor_def run_with_policy_def retry_enabled_def continue_enabled_def code_attempt_def
  settle_def record_step_def succeeded_output_def failed_output_def echo_executors_def
  empty_context_def buildCodeAction_def

text \<open>
  C4.  A branch built by \<^verbatim>\<open>buildActionWithOneCondition\<close> carries one group with the one
  condition and the two given sub-chains.  When every condition evaluates, the branch
  executor selects the success chain exactly if some group has all its conditions true
  (conjunction within a group, disjunction across groups).  A valid branch with a single
  group that evaluates true selects the success chain and the run continues with
  \<^verbatim>\<open>onSuccessAction\<close>; when the group evaluates false it selects the failure chain and
  the run continues with \<^verbatim>\<open>onFailureAction\<close>.
\<close>

theorem branch_selects_one_chain:
  "branchSettings (buildActionWithOneCondition c onSuccess onFailure)
     = \<lparr> conditions = [[c]], branch_errorHandlingOptions = None \<rparr>
   \<and> onSuccessAction (buildActionWithOneCondition c onSuccess onFailure) = onSuccess
   \<and> onFailureAction (buildActionWithOneCondition c onSuccess onFailure) = onFailure
   \<and> ((\<forall>g \<in> set (conditions bs). \<forall>c \<in> set g. \<exists>b. evaluate_condition ex c ctx constants = Inr b) \<longrightarrow>
         branch_executor ex constants bs ctx =
           Inr (if \<exists>g \<in> set (conditions bs). \<forall>c \<in> set g. evaluate_condition ex c ctx constants = Inr True
                then OnSuccess else OnFailure))
   \<and> (conditions bs = [g] \<and> group_satisfied ex ctx constants g = Inr True \<longrightarrow>
         branch_executor ex constants bs ctx = Inr OnSuccess
       \<and> execute_action lang ex constants (BranchAction nm dn bs onSuccess onFailure True) ctx
           = execute lang ex constants onSuccess
               (record_step ctx nm (succeeded_output (JBool True))))
   \<and> (conditions bs = [g] \<and> group_satisfied ex ctx constants g = Inr False \<longrightarrow>
         branch_executor ex constants bs ctx = Inr OnFailure
       \<and> execute_action lang ex constants (BranchAction nm dn bs onSuccess onFailure True) ctx
           = execute lang ex constants onFailure
               (record_step ctx nm (succeeded_output (JBool False))))"
proof -
  have s: "branchSettings (buildActionWithOneCondition c onSuccess onFailure)
             = \<lparr> conditions = [[c]], branch_errorHandlingOptions = None \<rparr>"
          "onSuccessAction (buildActionWithOneCondition c onSuccess onFailure) = onSuccess"
          "onFailureAction (buildActionWithOneCondition c onSuccess onFailure) = onFailure"
    by (simp_all add: buildActionWithOneCondition_def)
  have gen: "branch_executor ex constants bs ctx =
           Inr (if \<exists>g \<in> set (conditions bs). \<forall>c \<in> set g. evaluate_condition ex c ctx constants = Inr True
                then OnSuccess else OnFailure)"
    if "\<forall>g \<in> set (conditions bs). \<forall>c \<in> set g. \<exists>b. evaluate_condition ex c ctx constants = Inr b"
  proof (cases "\<exists>g \<in> set (conditions bs). \<forall>c \<in> set g. evaluate_condition ex c ctx constants = Inr True")
    case True
    with any_group_satisfied_any [OF that] show ?thesis
      by (simp add: branch_executor_def)
  next
    case False
    with any_group_satisfied_any [OF that] show ?thesis
      by (simp add: branch_executor_def)
  qed
  have t: "branch_executor ex constants bs ctx = Inr OnSuccess
       \<and> execute_action lang ex constants (BranchAction nm dn bs onSuccess onFailure True) ctx
           = execute lang ex constants onSuccess
               (record_step ctx nm (succeeded_output (JBool True)))"
    if "conditions bs = [g]" "group_satisfied ex ctx constants g = Inr True"
    using that by (simp add: branch_executor_def)
  have f: "branch_executor ex constants bs ctx = Inr OnFailure
       \<and> execute_action lang ex constants (BranchAction nm dn bs onSuccess onFailure True) ctx
           = execute lang ex constants onFailure
               (record_step ctx nm (succeeded_output (JBool False)))"
    if "conditions bs = [g]" "group_satisfied ex ctx constants g = Inr False"
    using that by (simp add: branch_executor_def)
  from s gen t f show ?thesis by blast
qed

theorem branch_selects_one_chain_witness:
  "conditions \<lparr> conditions = [[True, False], [True]], branch_errorHandlingOptions = None \<rparr>
     = [[True, False], [True]]
   \<and> branch_executor echo_executors (generateMockEngineConstants None)
        \<lparr> conditions = [[True, False], [True]], branch_errorHandlingOptions = None \<rparr> empty_context
       = Inr OnSuccess
   \<and> group_satisfied echo_executors empty_context (generateMockEngineConstants None) [True] = Inr True
   \<and> execute_action demo_lang echo_executors (generateMockEngineConstants None)
        (buildActionWithOneCondition True
           (Some (buildCodeAction ''echo_step'' [] None None))
           (Some (buildCodeAction ''runtime'' [] None None))) empty_context
       = SUCCEEDED \<lparr> steps = [(''branch'', succeeded_output (JBool True)),
                                (''echo_step'', succeeded_output (JObj []))],
                       loopItem = None \<rparr>
   \<and> group_satisfied echo_executors empty_context (generateMockEngineConstants None) [False] = Inr False
   \<and> execute_action demo_lang echo_executors (generateMockEngineConstants None)
        (buildActionWithOneCondition False
           (Some (buildCodeAction ''echo_step'' [] None None))
           (Some (buildCodeAction ''runtime'' [] None None))) empty_context
       = SUCCEEDED \<lparr> steps = [(''branch'', succeeded_output (JBool False)),
                                (''runtime'', succeeded_output (JObj []))],
                       loopItem = None \<rparr>"
proof -
  let ?k = "generateMockEngineConstants None"
  let ?s = "Some (buildCodeAction ''echo_step'' [] None None) :: bool Action option"
  let ?f = "Some (buildCodeAction ''runtime'' [] None None) :: bool Action option"
  have gt: "group_satisfied echo_executors empty_context ?k [True] = Inr True"
    and gf: "group_satisfied echo_executors empty_context ?k [False] = Inr False"
    by (simp_all add: echo_executors_def)
  have ev: "\<forall>g \<in> set (conditions \<lparr> conditions = [[True, False], [True]],
                                     branch_errorHandlingOptions = None \<rparr>).
              \<forall>c \<in> set g. \<exists>b. evaluate_condition echo_executors c empty_context ?k = Inr b"
    by (simp add: echo_executors_def)
  note gen = branch_selects_one_chain [where ex = echo_executors and ctx = empty_context
      and constants = ?k
      and bs = "\<lparr> conditions = [[True, False], [True]], branch_errorHandlingOptions = None \<rparr>",
      THEN conjunct2, THEN conjunct2, THEN conjunct2, THEN conjunct1, THEN mp, OF ev]
  have a: "branch_executor echo_executors ?k
        \<lparr> conditions = [[True, False], [True]], branch_errorHandlingOptions = None \<rparr> empty_context
       = Inr OnSuccess"
    using gen by (simp add: echo_executors_def)
  note t = branch_selects_one_chain [where ex = echo_executors and ctx = empty_context
      and constants = ?k and lang = demo_lang and g = "[True]" and nm = "''branch''"
      and dn = "''Your Branch Name''" and onSuccess = ?s and onFailure = ?f
      and bs = "\<lparr> conditions = [[True]], branch_errorHandlingOptions = None \<rparr>",
      THEN conjunct2, THEN conjunct2, THEN conjunct2, THEN conjunct2, THEN conjunct1]
  note f = branch_selects_one_chain [where ex = echo_executors and ctx = empty_context
      and constants = ?k and lang = demo_lang and g = "[False]" and nm = "''branch''"
      and dn = "''Your Branch Name''" and onSuccess = ?s and onFailure = ?f
      and bs = "\<lparr> conditions = [[False]], branch_errorHandlingOptions = None \<rparr>",
      THEN conjunct2, THEN conjunct2, THEN conjunct2, THEN conjunct2, THEN conjunct2]
  have b: "execute_action demo_lang echo_executors ?k
        (buildActionWithOneCondition True ?s ?f) empty_context
       = SUCCEEDED \<lparr> steps = [(''branch'', succeeded_output (JBool True)),
                                (''echo_step'', succeeded_output (JObj []))],
                       loopItem = None \<rparr>"
    using t gt by (simp add: buildActionWithOneCondition_def) (simp add: run_simps)
  have c: "execute_action demo_lang echo_executors ?k
        (buildActionWithOneCondition False ?s ?f) empty_context
       = SUCCEEDED \<lparr> steps = [(''branch'', succeeded_output (JBool False)),
                                (''runtime'', succeeded_output (JObj []))],
                       loopItem = None \<rparr>"
    using f gf by (simp add: buildActionWithOneCondition_def) (simp add: run_simps)
  from a gt gf b c show ?thesis by simp
qed

subsection \<open>Loops\<close>




subsection \<open>Chains of code actions\<close>

text \<open>
  C7.  For a flow that is a linear chain of code actions in which no action fails,
  the run succeeds and the Run Context gains exactly one entry per action, under the
  action's name, in execution order; started on the empty context it holds exactly
  these entries.
\<close>

theorem code_chain_succeeds:
  assumes "linear_code_chain a"
      and "no_action_fails lang ex constants a ctx"
  shows "\<exists>ctx'. execute lang ex constants a ctx = SUCCEEDED ctx'
           \<and> map fst (steps ctx') = map fst (steps ctx) @ chain_names a
           \<and> length (steps ctx') = length (steps ctx) + length (chain_names a)
           \<and> (steps ctx = [] \<longrightarrow> map fst (steps ctx') = chain_names a)"
  using assms
proof (induction a arbitrary: ctx rule: linear_code_chain.induct)
  case 1
  then show ?case by simp
next
  case (2 nm dn cs nxt v)
  from "2.prems"(2) obtain out where
    v: "v" and
    out: "fst (code_executor lang ex constants cs ctx) = Completed out" and
    rest: "no_action_fails lang ex constants nxt (record_step ctx nm (succeeded_output out))"
    by (auto split: AttemptResult.splits)
  let ?ctx1 = "record_step ctx nm (succeeded_output out)"
  from "2.prems"(1) have "linear_code_chain nxt" by simp
  from "2.IH" [OF this rest] obtain ctx' where
    ih: "execute lang ex constants nxt ?ctx1 = SUCCEEDED ctx'"
        "map fst (steps ctx') = map fst (steps ?ctx1) @ chain_names nxt"
        "length (steps ctx') = length (steps ?ctx1) + length (chain_names nxt)"
    by blast
  have ex: "execute lang ex constants (Some (CodeAction nm dn cs nxt v)) ctx = SUCCEEDED ctx'"
    using v out ih(1) by (simp add: settle_def)
  have st: "steps ?ctx1 = steps ctx @ [(nm, succeeded_output out)]"
    by (simp add: record_step_def)
  from ex ih(2,3) st show ?case by simp
qed simp_all

theorem code_chain_succeeds_witness:
  "linear_code_chain (Some three_step_flow)
   \<and> no_action_fails demo_lang echo_executors (generateMockEngineConstants None)
        (Some three_step_flow) empty_context
   \<and> chain_names (Some three_step_flow) = [''echo_step'', ''runtime'', ''echo_step_1'']
   \<and> (\<exists>ctx'. execute demo_lang echo_executors (generateMockEngineConstants None)
                 (Some three_step_flow) empty_context = SUCCEEDED ctx'
            \<and> map fst (steps ctx') = [''echo_step'', ''runtime'', ''echo_step_1'']
            \<and> length (steps ctx') = 3)"
proof -
  let ?k = "generateMockEngineConstants None"
  have c: "linear_code_chain (Some three_step_flow)"
    by (simp add: three_step_flow_def buildCodeAction_def)
  have n: "no_action_fails demo_lang echo_executors ?k (Some three_step_flow) empty_context"
    by (simp add: three_step_flow_def run_simps resolve_template_def demo_lang_def)
  have m: "chain_names (Some three_step_flow) = [''echo_step'', ''runtime'', ''echo_step_1'']"
    by (simp add: three_step_flow_def buildCodeAction_def)
  from code_chain_succeeds [OF c n] m
  have "\<exists>ctx'. execute demo_lang echo_executors ?k (Some three_step_flow) empty_context
                 = SUCCEEDED ctx'
            \<and> map fst (steps ctx') = [''echo_step'', ''runtime'', ''echo_step_1'']
            \<and> length (steps ctx') = 3"
    by (auto simp: empty_context_def)
  with c n m show ?thesis by blast
qed

end
